theory Spec2Isabelle
  imports Main
begin

section \<open>Go values used by the services and the controllers\<close>

text \<open>
  A Go \<open>string\<close> is a sequence of bytes: it is a \<open>string\<close> (a \<open>char list\<close>) here, a code
  point beyond ASCII being the bytes of its UTF-8 encoding, as in the source files. A Go
  \<open>int\<close> is an \<open>int\<close>; the only integers the program computes with come from the
  constants of the handlers and from \<open>strconv.Atoi\<close>, which refuses what does not fit 64
  bits, and no arithmetic is done on them. An \<open>error\<close> is the text of its \<open>Error()\<close>, a
  nil error or pointer is \<open>None\<close>.
\<close>

abbreviation StatusOK :: int where "StatusOK \<equiv> 200"
abbreviation StatusSeeOther :: int where "StatusSeeOther \<equiv> 303"
abbreviation StatusBadRequest :: int where "StatusBadRequest \<equiv> 400"
abbreviation StatusNotFound :: int where "StatusNotFound \<equiv> 404"
abbreviation StatusInternalServerError :: int where "StatusInternalServerError \<equiv> 500"

subsection \<open>Formatting and parsing integers\<close>

definition digitChar :: "nat \<Rightarrow> char" where
  "digitChar d = ''0123456789'' ! (d mod 10)"

fun natToDec :: "nat \<Rightarrow> string" where
  "natToDec n =
     (if n < 10 then [digitChar n] else natToDec (n div 10) @ [digitChar (n mod 10)])"

declare natToDec.simps [simp del]

text \<open>\<open>fmt.Sprintf("%d", i)\<close>: the decimal digits, after a minus sign when negative.\<close>

definition Sprintf_d :: "int \<Rightarrow> string" where
  "Sprintf_d i = (if i < 0 then CHR ''-'' # natToDec (nat (- i)) else natToDec (nat i))"

datatype NumError = ErrSyntax | ErrRange

definition isDigit :: "char \<Rightarrow> bool" where
  "isDigit c = (48 \<le> (of_char c :: nat) \<and> (of_char c :: nat) \<le> 57)"

text \<open>
  The digits of \<open>strconv.ParseUint\<close> in base 10, from the left, \<open>n\<close> being the value read so
  far: a byte that is no digit is a syntax error, a value that leaves 64 bits is a range
  error, whichever comes first.
\<close>

fun parseDigits :: "nat \<Rightarrow> string \<Rightarrow> NumError + nat" where
  "parseDigits n [] = Inr n"
| "parseDigits n (c # cs) =
     (if \<not> isDigit c then Inl ErrSyntax
      else if 2 ^ 64 \<le> n * 10 + ((of_char c :: nat) - 48) then Inl ErrRange
      else parseDigits (n * 10 + ((of_char c :: nat) - 48)) cs)"

text \<open>
  \<open>strconv.Atoi\<close> of the standard library, for a 64-bit \<open>int\<close>: an optional sign, then one
  decimal digit or more, and nothing else; an error otherwise, and when the number is
  outside \<open>-2\<^sup>6\<^sup>3 .. 2\<^sup>6\<^sup>3 - 1\<close>.
\<close>

definition Atoi :: "string \<Rightarrow> NumError + int" where
  "Atoi s =
     (let neg = (s \<noteq> [] \<and> hd s = CHR ''-'');
          signed = (s \<noteq> [] \<and> (hd s = CHR ''-'' \<or> hd s = CHR ''+''));
          ds = (if signed then tl s else s)
      in if ds = [] then Inl ErrSyntax
         else case parseDigits 0 ds of
                Inl err \<Rightarrow> Inl err
              | Inr un \<Rightarrow>
                  if \<not> neg \<and> 2 ^ 63 \<le> un then Inl ErrRange
                  else if neg \<and> 2 ^ 63 < un then Inl ErrRange
                  else Inr (if neg then - int un else int un))"

subsection \<open>White space\<close>

text \<open>
  \<open>strings.TrimSpace\<close> removes the leading and the trailing white space of a string, as
  Unicode defines it (\<open>unicode.IsSpace\<close>): the runes U+0009 to U+000D, U+0020, U+0085, U+00A0,
  U+1680, U+2000 to U+200A, U+2028, U+2029, U+202F, U+205F and U+3000. On the bytes of the
  string these are the UTF-8 encodings below; a byte that does not start a well-formed
  encoding decodes to U+FFFD, which is no white space, and stops the trimming.
\<close>

definition whiteSpace :: "string list" where
  "whiteSpace =
     [[CHR 0x09], [CHR 0x0A], [CHR 0x0B], [CHR 0x0C], [CHR 0x0D], [CHR 0x20],
      [CHR 0xC2, CHR 0x85], [CHR 0xC2, CHR 0xA0], [CHR 0xE1, CHR 0x9A, CHR 0x80],
      [CHR 0xE2, CHR 0x80, CHR 0x80], [CHR 0xE2, CHR 0x80, CHR 0x81],
      [CHR 0xE2, CHR 0x80, CHR 0x82], [CHR 0xE2, CHR 0x80, CHR 0x83],
      [CHR 0xE2, CHR 0x80, CHR 0x84], [CHR 0xE2, CHR 0x80, CHR 0x85],
      [CHR 0xE2, CHR 0x80, CHR 0x86], [CHR 0xE2, CHR 0x80, CHR 0x87],
      [CHR 0xE2, CHR 0x80, CHR 0x88], [CHR 0xE2, CHR 0x80, CHR 0x89],
      [CHR 0xE2, CHR 0x80, CHR 0x8A], [CHR 0xE2, CHR 0x80, CHR 0xA8],
      [CHR 0xE2, CHR 0x80, CHR 0xA9], [CHR 0xE2, CHR 0x80, CHR 0xAF],
      [CHR 0xE2, CHR 0x81, CHR 0x9F], [CHR 0xE3, CHR 0x80, CHR 0x80]]"

text \<open>The number of bytes of the white-space rune a string starts with, 0 when it starts
  with none.\<close>

definition spaceWidth :: "string list \<Rightarrow> string \<Rightarrow> nat" where
  "spaceWidth encs s =
     (case find (\<lambda>e. e \<noteq> [] \<and> take (length e) s = e) encs of
        None \<Rightarrow> 0
      | Some e \<Rightarrow> length e)"

function trimLeft :: "string list \<Rightarrow> string \<Rightarrow> string" where
  "trimLeft encs s =
     (if spaceWidth encs s = 0 then s else trimLeft encs (drop (spaceWidth encs s) s))"
  by pat_completeness auto
termination
proof (relation "measure (\<lambda>(encs, s). length s)")
  show "wf (measure (\<lambda>(encs, s). length s))" by simp
next
  fix encs :: "string list" and s :: string
  assume "spaceWidth encs s \<noteq> 0"
  then obtain e where e: "find (\<lambda>e. e \<noteq> [] \<and> take (length e) s = e) encs = Some e"
    and w: "spaceWidth encs s = length e"
    by (auto simp: spaceWidth_def split: option.splits)
  from e have "e \<noteq> []" and "take (length e) s = e"
    by (auto simp: find_Some_iff)
  then have "s \<noteq> []" and "0 < length e" by auto
  then show "((encs, drop (spaceWidth encs s) s), (encs, s)) \<in> measure (\<lambda>(encs, s). length s)"
    using w by simp
qed

declare trimLeft.simps [simp del]

definition TrimSpace :: "string \<Rightarrow> string" where
  "TrimSpace s = rev (trimLeft (map rev whiteSpace) (rev (trimLeft whiteSpace s)))"

subsection \<open>Query and form values\<close>

text \<open>\<open>url.Values\<close> is a \<open>map[string][]string\<close>. Reading a key that is absent gives the nil
  slice, of length 0.\<close>

type_synonym Values = "string \<rightharpoonup> string list"

definition index_Values :: "Values \<Rightarrow> string \<Rightarrow> string list" where
  "index_Values v key = (case v key of None \<Rightarrow> [] | Some vs \<Rightarrow> vs)"

text \<open>\<open>Values.Get\<close>: the first value of the key, the empty string when there is none.\<close>

definition Get :: "Values \<Rightarrow> string \<Rightarrow> string" where
  "Get v key = (case index_Values v key of [] \<Rightarrow> [] | x # _ \<Rightarrow> x)"

text \<open>\<open>Values.Add\<close> appends the value to the values of the key.\<close>

definition Add :: "Values \<Rightarrow> string \<Rightarrow> string \<Rightarrow> Values" where
  "Add v key val = v(key \<mapsto> index_Values v key @ [val])"

section \<open>The services (\<open>services/digimon.service.go\<close>)\<close>

subsection \<open>Data\<close>

record Image =
  Image_Href :: string
  Image_Transparent :: string

record DigimonType =
  DigimonType_ID :: int
  DigimonType_Type :: string
  DigimonType_Image :: string

record DigimonAttribute =
  DigimonAttribute_ID :: int
  DigimonAttribute_Attribute :: string
  DigimonAttribute_Image :: string

record DigimonLevel =
  DigimonLevel_ID :: int
  DigimonLevel_Level :: string

record DigimonField =
  DigimonField_ID :: int
  DigimonField_Field :: string
  DigimonField_Image :: string

record DigimonSkill =
  DigimonSkill_ID :: int
  DigimonSkill_Skill :: string
  DigimonSkill_Description :: string

record Description =
  Description_Origin :: string
  Description_Language :: string
  Description_Description :: string

record Digimon =
  Digimon_ID :: int
  Digimon_Name :: string
  Digimon_XAntibody :: bool
  Digimon_Images :: "Image list"
  Digimon_Levels :: "DigimonLevel list"
  Digimon_Types :: "DigimonType list"
  Digimon_Attributes :: "DigimonAttribute list"
  Digimon_Fields :: "DigimonField list"
  Digimon_Skills :: "DigimonSkill list"
  Digimon_Descriptions :: "Description list"

record DigimonSummary =
  Summary_ID :: int
  Summary_Name :: string
  Summary_Href :: string
  Summary_Image :: string

record Sort =
  Sorted :: bool
  Unsorted :: bool
  Sort_Empty :: bool

record Pageable =
  Pageable_Sort :: Sort
  PageNumber :: int
  Pageable_PageSize :: int
  Offset :: int
  Paged :: bool
  Unpaged :: bool

record DigimonListResponse =
  Content :: "DigimonSummary list"
  Pageable :: Pageable
  TotalElements :: int
  TotalPages :: int
  Last :: bool
  First :: bool
  Size :: int
  Number :: int
  NumberOfElements :: int
  Empty :: bool

record Attribute =
  Attribute_ID :: int
  Attribute_Attribute :: string
  Attribute_Digimons :: "DigimonSummary list"

record Level =
  Level_ID :: int
  Level_Level :: string
  Level_Digimons :: "DigimonSummary list"

text \<open>\<open>XAntibody\<close> is a \<open>*bool\<close>: \<open>None\<close> is the nil pointer, no filter.\<close>

record DigimonListOptions =
  Name :: string
  Exact :: bool
  Attribute :: string
  XAntibody :: "bool option"
  Level :: string
  Page :: int
  PageSize :: int

subsection \<open>The HTTP client and the upstream API\<close>

text \<open>A \<open>context.Context\<close> as the program builds it: the background context, or a context
  derived from a parent with a timeout (a \<open>time.Duration\<close>, in nanoseconds).\<close>

datatype Context = Background | WithTimeout Context int

definition Second :: int where
  "Second = 1000000000"

definition digimonAPIBaseURL :: string where
  "digimonAPIBaseURL = ''https://digi-api.com/api/v1''"

definition defaultTimeout :: int where
  "defaultTimeout = 10 * Second"

record Client =
  Timeout :: int

definition httpClient :: Client where
  "httpClient = \<lparr>Timeout = defaultTimeout\<rparr>"

text \<open>
  An outbound \<open>*http.Request\<close>: its context, method and URL, and the values of the query of
  the URL. \<open>Query\<close> holds the \<open>url.Values\<close> that \<open>req.URL.RawQuery\<close> encodes (\<open>Values.Encode\<close>
  writes one \<open>key=value\<close> for each, sorted by key and percent-escaped); it is empty for a URL
  with no query.
\<close>

record Request =
  Ctx :: Context
  Method :: string
  URL :: string
  Query :: Values

record Response =
  StatusCode :: int
  Body :: string

text \<open>
  What lies outside the program: whether the standard library accepts a URL
  (\<open>NewRequest_error\<close> is the error of \<open>http.NewRequestWithContext\<close> for it, \<open>None\<close> when the
  request is built), what the network answers to a request sent by a client (\<open>RoundTrip\<close>: a
  transport error, or the response), and what \<open>encoding/json\<close> decodes a body to, for each
  of the four types the services decode into (an error, or the value).
\<close>

record Upstream =
  NewRequest_error :: "string \<Rightarrow> string option"
  RoundTrip :: "Client \<Rightarrow> Request \<Rightarrow> string + Response"
  Decode_Digimon :: "string \<Rightarrow> string + Digimon"
  Decode_DigimonListResponse :: "string \<Rightarrow> string + DigimonListResponse"
  Decode_Attribute :: "string \<Rightarrow> string + Attribute"
  Decode_Level :: "string \<Rightarrow> string + Level"

definition NewRequestWithContext ::
  "Upstream \<Rightarrow> Context \<Rightarrow> string \<Rightarrow> string \<Rightarrow> string + Request" where
  "NewRequestWithContext up ctx method url =
     (case NewRequest_error up url of
        Some err \<Rightarrow> Inl err
      | None \<Rightarrow> Inr \<lparr>Ctx = ctx, Method = method, URL = url, Query = Map.empty\<rparr>)"

text \<open>
  The state of a run is the list of the requests handed to \<open>httpClient.Do\<close> so far, the
  last one last. A service returns the triple of the source (the pointer, the status code,
  the error) and the new state.
\<close>

type_synonym 'a result = "'a option \<times> int \<times> string option"

definition Do :: "Upstream \<Rightarrow> Client \<Rightarrow> Request \<Rightarrow> Request list \<Rightarrow> (string + Response) \<times> Request list" where
  "Do up c req sent = (RoundTrip up c req, sent @ [req])"

subsection \<open>Fetching one Digimon\<close>

definition fetchDigimon ::
  "Upstream \<Rightarrow> Context \<Rightarrow> string \<Rightarrow> Request list \<Rightarrow> Digimon result \<times> Request list" where
  "fetchDigimon up ctx url sent =
     (case NewRequestWithContext up ctx ''GET'' url of
        Inl err \<Rightarrow>
          ((None, StatusInternalServerError,
            Some (''erreur cr'' @ [CHR 0xC3, CHR 0xA9] @ ''ation requ'' @ [CHR 0xC3, CHR 0xAA]
                  @ ''te: '' @ err)), sent)
      | Inr req \<Rightarrow>
          (case Do up httpClient req sent of
             (Inl err, sent') \<Rightarrow>
               ((None, StatusInternalServerError,
                 Some (''erreur requ'' @ [CHR 0xC3, CHR 0xAA] @ ''te HTTP: '' @ err)), sent')
           | (Inr resp, sent') \<Rightarrow>
               if StatusCode resp \<noteq> StatusOK
               then ((None, StatusCode resp,
                      Some (''code HTTP inattendu: '' @ Sprintf_d (StatusCode resp))), sent')
               else (case Decode_Digimon up (Body resp) of
                       Inl err \<Rightarrow>
                         ((None, StatusInternalServerError,
                           Some (''erreur d'' @ [CHR 0xC3, CHR 0xA9] @ ''codage JSON: '' @ err)),
                          sent')
                     | Inr digimon \<Rightarrow> ((Some digimon, StatusCode resp, None), sent'))))"

definition GetDigimonByID ::
  "Upstream \<Rightarrow> Context \<Rightarrow> int \<Rightarrow> Request list \<Rightarrow> Digimon result \<times> Request list" where
  "GetDigimonByID up ctx ident sent =
     fetchDigimon up ctx (digimonAPIBaseURL @ ''/digimon/'' @ Sprintf_d ident) sent"

definition GetDigimonByName ::
  "Upstream \<Rightarrow> Context \<Rightarrow> string \<Rightarrow> Request list \<Rightarrow> Digimon result \<times> Request list" where
  "GetDigimonByName up ctx name sent =
     fetchDigimon up ctx (digimonAPIBaseURL @ ''/digimon/'' @ name) sent"

subsection \<open>Listing\<close>

text \<open>The query parameters of \<open>GetAllDigimons\<close>, added to the values \<open>q\<close> of the URL in the
  order of the source.\<close>

definition addOptions :: "DigimonListOptions \<Rightarrow> Values \<Rightarrow> Values" where
  "addOptions opts q0 =
     (let q1 = (if Name opts \<noteq> [] then Add q0 ''name'' (Name opts) else q0);
          q2 = (if Exact opts then Add q1 ''exact'' ''true'' else q1);
          q3 = (if Attribute opts \<noteq> [] then Add q2 ''attribute'' (Attribute opts) else q2);
          q4 = (case XAntibody opts of
                  None \<Rightarrow> q3
                | Some x \<Rightarrow>
                    if x then Add q3 ''xAntibody'' ''true'' else Add q3 ''xAntibody'' ''false'');
          q5 = (if Level opts \<noteq> [] then Add q4 ''level'' (Level opts) else q4);
          q6 = (if Page opts > 0 then Add q5 ''page'' (Sprintf_d (Page opts)) else q5);
          q7 = (if PageSize opts > 0 then Add q6 ''pageSize'' (Sprintf_d (PageSize opts)) else q6)
      in q7)"

text \<open>The request \<open>GetAllDigimons\<close> sends: the query is set only when \<open>opts\<close> is not nil.\<close>

definition withOptions :: "DigimonListOptions option \<Rightarrow> Request \<Rightarrow> Request" where
  "withOptions opts req =
     (case opts of
        None \<Rightarrow> req
      | Some options \<Rightarrow> req\<lparr>Query := addOptions options (Query req)\<rparr>)"

definition GetAllDigimons ::
  "Upstream \<Rightarrow> Context \<Rightarrow> DigimonListOptions option \<Rightarrow> Request list
     \<Rightarrow> DigimonListResponse result \<times> Request list" where
  "GetAllDigimons up ctx opts sent =
     (case NewRequestWithContext up ctx ''GET'' (digimonAPIBaseURL @ ''/digimon'') of
        Inl err \<Rightarrow>
          ((None, StatusInternalServerError,
            Some (''erreur cr'' @ [CHR 0xC3, CHR 0xA9] @ ''ation requ'' @ [CHR 0xC3, CHR 0xAA]
                  @ ''te: '' @ err)), sent)
      | Inr req0 \<Rightarrow>
          (case Do up httpClient (withOptions opts req0) sent of
             (Inl err, sent') \<Rightarrow>
               ((None, StatusInternalServerError,
                 Some (''erreur requ'' @ [CHR 0xC3, CHR 0xAA] @ ''te HTTP: '' @ err)), sent')
           | (Inr resp, sent') \<Rightarrow>
               if StatusCode resp \<noteq> StatusOK
               then ((None, StatusCode resp,
                      Some (''code HTTP inattendu: '' @ Sprintf_d (StatusCode resp))), sent')
               else (case Decode_DigimonListResponse up (Body resp) of
                       Inl err \<Rightarrow>
                         ((None, StatusInternalServerError,
                           Some (''erreur d'' @ [CHR 0xC3, CHR 0xA9] @ ''codage JSON: '' @ err)),
                          sent')
                     | Inr listResponse \<Rightarrow> ((Some listResponse, StatusCode resp, None), sent'))))"

subsection \<open>Attributes and levels\<close>

definition fetchAttribute ::
  "Upstream \<Rightarrow> Context \<Rightarrow> string \<Rightarrow> Request list \<Rightarrow> Attribute result \<times> Request list" where
  "fetchAttribute up ctx url sent =
     (case NewRequestWithContext up ctx ''GET'' url of
        Inl err \<Rightarrow>
          ((None, StatusInternalServerError,
            Some (''erreur cr'' @ [CHR 0xC3, CHR 0xA9] @ ''ation requ'' @ [CHR 0xC3, CHR 0xAA]
                  @ ''te: '' @ err)), sent)
      | Inr req \<Rightarrow>
          (case Do up httpClient req sent of
             (Inl err, sent') \<Rightarrow>
               ((None, StatusInternalServerError,
                 Some (''erreur requ'' @ [CHR 0xC3, CHR 0xAA] @ ''te HTTP: '' @ err)), sent')
           | (Inr resp, sent') \<Rightarrow>
               if StatusCode resp \<noteq> StatusOK
               then ((None, StatusCode resp,
                      Some (''code HTTP inattendu: '' @ Sprintf_d (StatusCode resp))), sent')
               else (case Decode_Attribute up (Body resp) of
                       Inl err \<Rightarrow>
                         ((None, StatusInternalServerError,
                           Some (''erreur d'' @ [CHR 0xC3, CHR 0xA9] @ ''codage JSON: '' @ err)),
                          sent')
                     | Inr attribute \<Rightarrow> ((Some attribute, StatusCode resp, None), sent'))))"

definition GetAttributeByID ::
  "Upstream \<Rightarrow> Context \<Rightarrow> int \<Rightarrow> Request list \<Rightarrow> Attribute result \<times> Request list" where
  "GetAttributeByID up ctx ident sent =
     fetchAttribute up ctx (digimonAPIBaseURL @ ''/attribute/'' @ Sprintf_d ident) sent"

definition GetAttributeByName ::
  "Upstream \<Rightarrow> Context \<Rightarrow> string \<Rightarrow> Request list \<Rightarrow> Attribute result \<times> Request list" where
  "GetAttributeByName up ctx name sent =
     fetchAttribute up ctx (digimonAPIBaseURL @ ''/attribute/'' @ name) sent"

definition fetchLevel ::
  "Upstream \<Rightarrow> Context \<Rightarrow> string \<Rightarrow> Request list \<Rightarrow> Level result \<times> Request list" where
  "fetchLevel up ctx url sent =
     (case NewRequestWithContext up ctx ''GET'' url of
        Inl err \<Rightarrow>
          ((None, StatusInternalServerError,
            Some (''erreur cr'' @ [CHR 0xC3, CHR 0xA9] @ ''ation requ'' @ [CHR 0xC3, CHR 0xAA]
                  @ ''te: '' @ err)), sent)
      | Inr req \<Rightarrow>
          (case Do up httpClient req sent of
             (Inl err, sent') \<Rightarrow>
               ((None, StatusInternalServerError,
                 Some (''erreur requ'' @ [CHR 0xC3, CHR 0xAA] @ ''te HTTP: '' @ err)), sent')
           | (Inr resp, sent') \<Rightarrow>
               if StatusCode resp \<noteq> StatusOK
               then ((None, StatusCode resp,
                      Some (''code HTTP inattendu: '' @ Sprintf_d (StatusCode resp))), sent')
               else (case Decode_Level up (Body resp) of
                       Inl err \<Rightarrow>
                         ((None, StatusInternalServerError,
                           Some (''erreur d'' @ [CHR 0xC3, CHR 0xA9] @ ''codage JSON: '' @ err)),
                          sent')
                     | Inr level \<Rightarrow> ((Some level, StatusCode resp, None), sent'))))"

definition GetLevelByID ::
  "Upstream \<Rightarrow> Context \<Rightarrow> int \<Rightarrow> Request list \<Rightarrow> Level result \<times> Request list" where
  "GetLevelByID up ctx ident sent =
     fetchLevel up ctx (digimonAPIBaseURL @ ''/level/'' @ Sprintf_d ident) sent"

definition GetLevelByName ::
  "Upstream \<Rightarrow> Context \<Rightarrow> string \<Rightarrow> Request list \<Rightarrow> Level result \<times> Request list" where
  "GetLevelByName up ctx name sent =
     fetchLevel up ctx (digimonAPIBaseURL @ ''/level/'' @ name) sent"

subsection \<open>The versions without a context\<close>

definition GetDigimonByIDSimple ::
  "Upstream \<Rightarrow> int \<Rightarrow> Request list \<Rightarrow> Digimon result \<times> Request list" where
  "GetDigimonByIDSimple up ident sent = GetDigimonByID up Background ident sent"

definition GetDigimonByNameSimple ::
  "Upstream \<Rightarrow> string \<Rightarrow> Request list \<Rightarrow> Digimon result \<times> Request list" where
  "GetDigimonByNameSimple up name sent = GetDigimonByName up Background name sent"

definition GetAllDigimonsSimple ::
  "Upstream \<Rightarrow> DigimonListOptions option \<Rightarrow> Request list
     \<Rightarrow> DigimonListResponse result \<times> Request list" where
  "GetAllDigimonsSimple up opts sent = GetAllDigimons up Background opts sent"

section \<open>The controllers (\<open>controllers/digimon.controllers.go\<close>)\<close>

text \<open>
  What a handler reads of the incoming \<open>*http.Request\<close>: the values of the query of its URL
  (\<open>r.URL.Query()\<close>), the error of \<open>r.ParseForm()\<close> (\<open>None\<close> when it succeeds), and \<open>r.Form\<close> as
  the first parse of the handler leaves it (\<open>r.ParseForm()\<close> where the handler calls it, the
  first \<open>r.FormValue\<close> otherwise, which parses only while \<open>r.Form\<close> is nil).
\<close>

record Incoming =
  URL_Query :: Values
  ParseForm_error :: "string option"
  Form :: Values

definition FormValue :: "Incoming \<Rightarrow> string \<Rightarrow> string" where
  "FormValue r key = (case index_Values (Form r) key of [] \<Rightarrow> [] | x # _ \<Rightarrow> x)"

text \<open>
  What a handler does to the \<open>http.ResponseWriter\<close>: one call of \<open>http.Error\<close> (message and
  status code), of \<open>http.Redirect\<close> (target and status code) or of \<open>helper.RenderTemplate\<close>
  (template name and data; the \<open>helper\<close> package is not part of the sources read here). The
  data of a template is a list of summaries, a pointer to a Digimon (\<open>NilData\<close> when nil),
  or a \<open>map[string]interface{}\<close>.
  A call of a method on a nil error, or a read through a nil pointer, panics
  (\<open>NilDereference\<close>), and so does writing a status code below 100 or above 999
  (\<open>InvalidWriteHeaderCode\<close>). The lines the handlers write to the log are left out.
\<close>

datatype Value =
    IntV int
  | BoolV bool
  | StringV string
  | StringsV "string list"
  | SummariesV "DigimonSummary list"

datatype TemplateData =
    NilData
  | SummariesData "DigimonSummary list"
  | DigimonData Digimon
  | MapData "string \<rightharpoonup> Value"

datatype Reply =
    http_Error string int
  | http_Redirect string int
  | helper_RenderTemplate string TemplateData

datatype Panic = NilDereference | InvalidWriteHeaderCode

type_synonym handled = "(Panic + Reply) \<times> Request list"

text \<open>
  The call \<open>http.Error(w, msg, code)\<close>: it writes the status with \<open>w.WriteHeader(code)\<close>,
  which panics ("invalid WriteHeader code") for a code below 100 or above 999, before
  anything is written; otherwise the reply is the message under that status.
\<close>

definition call_http_Error :: "string \<Rightarrow> int \<Rightarrow> Panic + Reply" where
  "call_http_Error msg code =
     (if code < 100 \<or> 999 < code then Inl InvalidWriteHeaderCode
      else Inr (http_Error msg code))"

definition createContext :: Context where
  "createContext = WithTimeout Background (10 * Second)"

text \<open>\<open>fmt.Sprintf("Erreur service - code: %d\nmessage: %s", code, msg)\<close>\<close>

definition Sprintf_Erreur_service :: "int \<Rightarrow> string \<Rightarrow> string" where
  "Sprintf_Erreur_service code msg =
     ''Erreur service - code: '' @ Sprintf_d code @ [CHR 0x0A] @ ''message: '' @ msg"

text \<open>The zero value of \<open>DigimonListOptions\<close>, which a composite literal starts from.\<close>

definition zeroOptions :: DigimonListOptions where
  "zeroOptions =
     \<lparr>Name = [], Exact = False, Attribute = [], XAntibody = None, Level = [],
      Page = 0, PageSize = 0\<rparr>"

subsection \<open>Lists\<close>

definition DisplayListDigimons_opts :: DigimonListOptions where
  "DisplayListDigimons_opts = zeroOptions\<lparr>PageSize := 100\<rparr>"

definition DisplayListDigimons :: "Upstream \<Rightarrow> Incoming \<Rightarrow> Request list \<Rightarrow> handled" where
  "DisplayListDigimons up r sent =
     (case GetAllDigimons up createContext (Some DisplayListDigimons_opts) sent of
        ((data, dataStatusCode, err), sent') \<Rightarrow>
          if dataStatusCode \<noteq> StatusOK \<or> err \<noteq> None
          then (case err of
                  None \<Rightarrow> (Inl NilDereference, sent')
                | Some msg \<Rightarrow>
                    (call_http_Error (Sprintf_Erreur_service dataStatusCode msg) dataStatusCode,
                     sent'))
          else (case data of
                  None \<Rightarrow> (Inl NilDereference, sent')
                | Some d \<Rightarrow>
                    (Inr (helper_RenderTemplate ''list_digimon'' (SummariesData (Content d))),
                     sent')))"

text \<open>The page number the paginated list reads from the URL (\<open>?page=2\<close>), and its options.\<close>

definition DisplayListDigimonsWithPagination_page :: "Incoming \<Rightarrow> int" where
  "DisplayListDigimonsWithPagination_page r =
     (let pageStr = Get (URL_Query r) ''page'' in
      if pageStr \<noteq> []
      then (case Atoi pageStr of
              Inr p \<Rightarrow> if p > 0 then p else 0
            | Inl err \<Rightarrow> 0)
      else 0)"

definition DisplayListDigimonsWithPagination_opts :: "Incoming \<Rightarrow> DigimonListOptions" where
  "DisplayListDigimonsWithPagination_opts r =
     zeroOptions\<lparr>Page := DisplayListDigimonsWithPagination_page r, PageSize := 20\<rparr>"

definition DisplayListDigimonsWithPagination ::
  "Upstream \<Rightarrow> Incoming \<Rightarrow> Request list \<Rightarrow> handled" where
  "DisplayListDigimonsWithPagination up r sent =
     (let page = DisplayListDigimonsWithPagination_page r;
          opts = DisplayListDigimonsWithPagination_opts r
      in case GetAllDigimons up createContext (Some opts) sent of
        ((data, dataStatusCode, err), sent') \<Rightarrow>
          if dataStatusCode \<noteq> StatusOK \<or> err \<noteq> None
          then (case err of
                  None \<Rightarrow> (Inl NilDereference, sent')
                | Some msg \<Rightarrow>
                    (call_http_Error (Sprintf_Erreur_service dataStatusCode msg) dataStatusCode,
                     sent'))
          else (case data of
                  None \<Rightarrow> (Inl NilDereference, sent')
                | Some d \<Rightarrow>
                    (Inr (helper_RenderTemplate ''list_digimon_paginated''
                       (MapData
                          [''Digimons'' \<mapsto> SummariesV (Content d),
                           ''CurrentPage'' \<mapsto> IntV page,
                           ''TotalPages'' \<mapsto> IntV (TotalPages d),
                           ''TotalDigimons'' \<mapsto> IntV (TotalElements d),
                           ''HasNext'' \<mapsto> BoolV (\<not> Last d),
                           ''HasPrevious'' \<mapsto> BoolV (\<not> First d)])),
                     sent')))"

subsection \<open>Search\<close>

definition DisplaySearch_opts :: "string \<Rightarrow> DigimonListOptions" where
  "DisplaySearch_opts query = zeroOptions\<lparr>Name := query, PageSize := 50\<rparr>"

definition DisplaySearch :: "Upstream \<Rightarrow> Incoming \<Rightarrow> Request list \<Rightarrow> handled" where
  "DisplaySearch up r sent =
     (let query = TrimSpace (FormValue r ''query'') in
      if query = [] then (Inr (http_Redirect ''/digimons'' StatusSeeOther), sent)
      else
        case GetAllDigimons up createContext (Some (DisplaySearch_opts query)) sent of
          ((data, dataStatusCode, dataError), sent') \<Rightarrow>
            if dataStatusCode \<noteq> StatusOK \<or> dataError \<noteq> None
            then (case dataError of
                    None \<Rightarrow> (Inl NilDereference, sent')
                  | Some msg \<Rightarrow>
                      (call_http_Error (Sprintf_Erreur_service dataStatusCode msg)
                              dataStatusCode, sent'))
            else (case data of
                    None \<Rightarrow> (Inl NilDereference, sent')
                  | Some d \<Rightarrow>
                      (Inr (helper_RenderTemplate ''search_digimon''
                         (MapData
                            [''Digimons'' \<mapsto> SummariesV (Content d),
                             ''Query'' \<mapsto> StringV query,
                             ''Total'' \<mapsto> IntV (TotalElements d)])),
                       sent')))"

definition DisplaySearchAdvanced_opts :: "string \<Rightarrow> bool \<Rightarrow> DigimonListOptions" where
  "DisplaySearchAdvanced_opts query exact =
     zeroOptions\<lparr>Name := query, Exact := exact, PageSize := 50\<rparr>"

definition DisplaySearchAdvanced :: "Upstream \<Rightarrow> Incoming \<Rightarrow> Request list \<Rightarrow> handled" where
  "DisplaySearchAdvanced up r sent =
     (let query = TrimSpace (FormValue r ''query'');
          exact = (FormValue r ''exact'' = ''true'' \<or> FormValue r ''exact'' = ''on'')
      in
      if query = [] then (Inr (http_Redirect ''/digimons'' StatusSeeOther), sent)
      else
        case GetAllDigimons up createContext (Some (DisplaySearchAdvanced_opts query exact)) sent of
          ((data, dataStatusCode, dataError), sent') \<Rightarrow>
            if dataStatusCode \<noteq> StatusOK \<or> dataError \<noteq> None
            then (case dataError of
                    None \<Rightarrow> (Inl NilDereference, sent')
                  | Some msg \<Rightarrow>
                      (call_http_Error (Sprintf_Erreur_service dataStatusCode msg)
                              dataStatusCode, sent'))
            else (case data of
                    None \<Rightarrow> (Inl NilDereference, sent')
                  | Some d \<Rightarrow>
                      (Inr (helper_RenderTemplate ''search_digimon''
                         (MapData
                            [''Digimons'' \<mapsto> SummariesV (Content d),
                             ''Query'' \<mapsto> StringV query,
                             ''Exact'' \<mapsto> BoolV exact,
                             ''Total'' \<mapsto> IntV (TotalElements d)])),
                       sent')))"

subsection \<open>Filters\<close>

definition DisplayFilter_opts :: "string \<Rightarrow> string \<Rightarrow> string \<Rightarrow> DigimonListOptions" where
  "DisplayFilter_opts level attribute xAntibodyStr =
     (let opts0 = zeroOptions\<lparr>PageSize := 100\<rparr>;
          opts1 = (if level \<noteq> [] then opts0\<lparr>Level := level\<rparr> else opts0);
          opts2 = (if attribute \<noteq> [] then opts1\<lparr>Attribute := attribute\<rparr> else opts1);
          opts3 = (if xAntibodyStr = ''true'' \<or> xAntibodyStr = ''on''
                   then opts2\<lparr>XAntibody := Some True\<rparr> else opts2)
      in opts3)"

definition DisplayFilter :: "Upstream \<Rightarrow> Incoming \<Rightarrow> Request list \<Rightarrow> handled" where
  "DisplayFilter up r sent =
     (case ParseForm_error r of
        Some err \<Rightarrow> (call_http_Error ''Erreur parsing formulaire'' StatusBadRequest, sent)
      | None \<Rightarrow>
         (let level = TrimSpace (FormValue r ''level'');
              attribute = TrimSpace (FormValue r ''attribute'');
              xAntibodyStr = FormValue r ''xantibody''
          in
          case GetAllDigimons up createContext
                 (Some (DisplayFilter_opts level attribute xAntibodyStr)) sent of
            ((data, dataStatusCode, dataError), sent') \<Rightarrow>
              if dataStatusCode \<noteq> StatusOK \<or> dataError \<noteq> None
              then (case dataError of
                      None \<Rightarrow> (Inl NilDereference, sent')
                    | Some msg \<Rightarrow>
                        (call_http_Error (Sprintf_Erreur_service dataStatusCode msg)
                                dataStatusCode, sent'))
              else (case data of
                      None \<Rightarrow> (Inl NilDereference, sent')
                    | Some d \<Rightarrow>
                        (Inr (helper_RenderTemplate ''filter_digimons''
                           (MapData
                              [''Digimons'' \<mapsto> SummariesV (Content d),
                               ''Level'' \<mapsto> StringV level,
                               ''Attribute'' \<mapsto> StringV attribute,
                               ''XAntibody'' \<mapsto>
                                  BoolV (xAntibodyStr = ''true'' \<or> xAntibodyStr = ''on''),
                               ''Total'' \<mapsto> IntV (TotalElements d),
                               ''TotalPages'' \<mapsto> IntV (TotalPages d)])),
                         sent'))))"

definition DisplayFilterAdvanced_opts :: DigimonListOptions where
  "DisplayFilterAdvanced_opts = zeroOptions\<lparr>PageSize := 500\<rparr>"

text \<open>The loop of \<open>DisplayFilterAdvanced\<close> over \<open>data.Content\<close>, \<open>validDigimons\<close> being the list
  it appends to.\<close>

fun validDigimons_loop ::
  "string list \<Rightarrow> string list \<Rightarrow> string \<Rightarrow> DigimonSummary list \<Rightarrow> DigimonSummary list
     \<Rightarrow> DigimonSummary list" where
  "validDigimons_loop levels attributes xAntibodyStr [] validDigimons = validDigimons"
| "validDigimons_loop levels attributes xAntibodyStr (digimon # rest) validDigimons =
     validDigimons_loop levels attributes xAntibodyStr rest
       (if length levels = 0 \<and> length attributes = 0 \<and> xAntibodyStr = []
        then validDigimons @ [digimon] else validDigimons)"

definition DisplayFilterAdvanced :: "Upstream \<Rightarrow> Incoming \<Rightarrow> Request list \<Rightarrow> handled" where
  "DisplayFilterAdvanced up r sent =
     (case ParseForm_error r of
        Some err \<Rightarrow> (call_http_Error ''Erreur parsing formulaire'' StatusBadRequest, sent)
      | None \<Rightarrow>
         (case GetAllDigimons up createContext (Some DisplayFilterAdvanced_opts) sent of
            ((data, dataStatusCode, dataError), sent') \<Rightarrow>
              if dataStatusCode \<noteq> StatusOK \<or> dataError \<noteq> None
              then (case dataError of
                      None \<Rightarrow> (Inl NilDereference, sent')
                    | Some msg \<Rightarrow>
                        (call_http_Error (Sprintf_Erreur_service dataStatusCode msg)
                                dataStatusCode, sent'))
              else
                (let levels = index_Values (Form r) ''levels'';
                     attributes = index_Values (Form r) ''attributes'';
                     xAntibodyStr = FormValue r ''xantibody''
                 in case data of
                      None \<Rightarrow> (Inl NilDereference, sent')
                    | Some d \<Rightarrow>
                        (let validDigimons =
                               validDigimons_loop levels attributes xAntibodyStr (Content d) []
                         in (Inr (helper_RenderTemplate ''filter_digimons_advanced''
                               (MapData
                                  [''Digimons'' \<mapsto> SummariesV validDigimons,
                                   ''Levels'' \<mapsto> StringsV levels,
                                   ''Attributes'' \<mapsto> StringsV attributes,
                                   ''XAntibody'' \<mapsto>
                                      BoolV (xAntibodyStr = ''true'' \<or> xAntibodyStr = ''on''),
                                   ''Total'' \<mapsto> IntV (int (length validDigimons))])),
                             sent')))))"

subsection \<open>Details\<close>

definition DisplayDigimonDetails :: "Upstream \<Rightarrow> Incoming \<Rightarrow> Request list \<Rightarrow> handled" where
  "DisplayDigimonDetails up r sent =
     (let idStr = Get (URL_Query r) ''id'' in
      if idStr = [] then (call_http_Error ''ID manquant'' StatusBadRequest, sent)
      else
        case Atoi idStr of
          Inl err \<Rightarrow> (call_http_Error ''ID invalide'' StatusBadRequest, sent)
        | Inr ident \<Rightarrow>
           (case GetDigimonByID up createContext ident sent of
              ((digimon, statusCode, err), sent') \<Rightarrow>
                if statusCode \<noteq> StatusOK \<or> err \<noteq> None
                then (if statusCode = StatusNotFound
                      then (call_http_Error (''Digimon non trouv'' @ [CHR 0xC3, CHR 0xA9])
                                   StatusNotFound, sent')
                      else (case err of
                              None \<Rightarrow> (Inl NilDereference, sent')
                            | Some msg \<Rightarrow>
                                (call_http_Error (Sprintf_Erreur_service statusCode msg)
                                        statusCode, sent')))
                else (case digimon of
                        None \<Rightarrow> (Inr (helper_RenderTemplate ''digimon_details'' NilData), sent')
                      | Some d \<Rightarrow>
                          (Inr (helper_RenderTemplate ''digimon_details'' (DigimonData d)),
                           sent'))))"

definition DisplayDigimonDetailsByName ::
  "Upstream \<Rightarrow> Incoming \<Rightarrow> Request list \<Rightarrow> handled" where
  "DisplayDigimonDetailsByName up r sent =
     (let name = Get (URL_Query r) ''name'' in
      if name = [] then (call_http_Error ''Nom manquant'' StatusBadRequest, sent)
      else
        case GetDigimonByName up createContext name sent of
          ((digimon, statusCode, err), sent') \<Rightarrow>
            if statusCode \<noteq> StatusOK \<or> err \<noteq> None
            then (if statusCode = StatusNotFound
                  then (call_http_Error (''Digimon non trouv'' @ [CHR 0xC3, CHR 0xA9])
                               StatusNotFound, sent')
                  else (case err of
                          None \<Rightarrow> (Inl NilDereference, sent')
                        | Some msg \<Rightarrow>
                            (call_http_Error (Sprintf_Erreur_service statusCode msg)
                                    statusCode, sent')))
            else (case digimon of
                    None \<Rightarrow> (Inr (helper_RenderTemplate ''digimon_details'' NilData), sent')
                  | Some d \<Rightarrow>
                      (Inr (helper_RenderTemplate ''digimon_details'' (DigimonData d)),
                       sent')))"

subsection \<open>By attribute and by level\<close>

definition DisplayDigimonsByAttribute ::
  "Upstream \<Rightarrow> Incoming \<Rightarrow> Request list \<Rightarrow> handled" where
  "DisplayDigimonsByAttribute up r sent =
     (let attributeName = Get (URL_Query r) ''attribute'' in
      if attributeName = [] then (call_http_Error ''Attribut manquant'' StatusBadRequest, sent)
      else
        case GetAttributeByName up createContext attributeName sent of
          ((attribute, statusCode, err), sent') \<Rightarrow>
            if statusCode \<noteq> StatusOK \<or> err \<noteq> None
            then (case err of
                    None \<Rightarrow> (Inl NilDereference, sent')
                  | Some msg \<Rightarrow>
                      (call_http_Error (Sprintf_Erreur_service statusCode msg) statusCode,
                       sent'))
            else (case attribute of
                    None \<Rightarrow> (Inl NilDereference, sent')
                  | Some a \<Rightarrow>
                      (Inr (helper_RenderTemplate ''digimons_by_attribute''
                         (MapData
                            [''Attribute'' \<mapsto> StringV (Attribute_Attribute a),
                             ''Digimons'' \<mapsto> SummariesV (Attribute_Digimons a),
                             ''Total'' \<mapsto> IntV (int (length (Attribute_Digimons a)))])),
                       sent')))"

definition DisplayDigimonsByLevel :: "Upstream \<Rightarrow> Incoming \<Rightarrow> Request list \<Rightarrow> handled" where
  "DisplayDigimonsByLevel up r sent =
     (let levelName = Get (URL_Query r) ''level'' in
      if levelName = [] then (call_http_Error ''Niveau manquant'' StatusBadRequest, sent)
      else
        case GetLevelByName up createContext levelName sent of
          ((level, statusCode, err), sent') \<Rightarrow>
            if statusCode \<noteq> StatusOK \<or> err \<noteq> None
            then (case err of
                    None \<Rightarrow> (Inl NilDereference, sent')
                  | Some msg \<Rightarrow>
                      (call_http_Error (Sprintf_Erreur_service statusCode msg) statusCode,
                       sent'))
            else (case level of
                    None \<Rightarrow> (Inl NilDereference, sent')
                  | Some l \<Rightarrow>
                      (Inr (helper_RenderTemplate ''digimons_by_level''
                         (MapData
                            [''Level'' \<mapsto> StringV (Level_Level l),
                             ''Digimons'' \<mapsto> SummariesV (Level_Digimons l),
                             ''Total'' \<mapsto> IntV (int (length (Level_Digimons l)))])),
                       sent')))"

section \<open>Contracts\<close>

text \<open>The request a service builds for a URL, before any query is set.\<close>

definition request_of :: "Context \<Rightarrow> string \<Rightarrow> Request" where
  "request_of ctx url = \<lparr>Ctx = ctx, Method = ''GET'', URL = url, Query = Map.empty\<rparr>"

text \<open>
  The contract of a fetch, in the words of the specification: given what the network
  answered and what the decoder does, a transport failure yields nil, 500 and the transport
  error; a status other than 200 yields nil, that status and an error naming the unexpected
  code; a body that does not decode yields nil, 500 and the decode error; a status 200 whose
  body decodes yields the decoded value, 200 and no error.
\<close>

definition service_contract ::
  "(string + Response) \<Rightarrow> (string \<Rightarrow> string + 'a) \<Rightarrow> 'a result \<Rightarrow> bool" where
  "service_contract answer decode res =
     (case answer of
        Inl err \<Rightarrow>
          res = (None, StatusInternalServerError,
                 Some (''erreur requ'' @ [CHR 0xC3, CHR 0xAA] @ ''te HTTP: '' @ err))
      | Inr resp \<Rightarrow>
          if StatusCode resp \<noteq> StatusOK
          then res = (None, StatusCode resp,
                      Some (''code HTTP inattendu: '' @ Sprintf_d (StatusCode resp)))
          else (case decode (Body resp) of
                  Inl err \<Rightarrow>
                    res = (None, StatusInternalServerError,
                           Some (''erreur d'' @ [CHR 0xC3, CHR 0xA9] @ ''codage JSON: '' @ err))
                | Inr v \<Rightarrow> res = (Some v, StatusOK, None)))"

text \<open>Whether the network answered 200 with a body that the decoder accepts.\<close>

definition decoded_200 :: "(string + Response) \<Rightarrow> (string \<Rightarrow> string + 'a) \<Rightarrow> bool" where
  "decoded_200 answer decode =
     (case answer of
        Inl err \<Rightarrow> False
      | Inr resp \<Rightarrow> StatusCode resp = StatusOK \<and> \<not> isl (decode (Body resp)))"

text \<open>The invariant of a service result: the error is nil exactly when the status is 200,
  and the pointer is not nil exactly when the error is nil.\<close>

definition service_invariant :: "'a result \<Rightarrow> bool" where
  "service_invariant res =
     (case res of (v, code, err) \<Rightarrow>
        ((err = None) = (code = StatusOK)) \<and> ((v \<noteq> None) = (err = None)))"

definition status_of :: "'a result \<Rightarrow> int" where
  "status_of res = fst (snd res)"

text \<open>
  The error mapping of the handlers, in the words of the specification, for a status code
  that can be written (100 to 999): the reply carries the status code the service reported;
  a handler that distinguishes 404 answers it with a "not found" message, any other status
  is answered with a message that embeds the status code and the text of the error. For a
  status code that cannot be written the handler panics in \<open>WriteHeader\<close>, and there is no
  reply.
\<close>

definition error_mapping :: "bool \<Rightarrow> 'a result \<Rightarrow> Panic + Reply \<Rightarrow> bool" where
  "error_mapping distinguishes_404 res out =
     (case res of (v, code, err) \<Rightarrow>
        if code < 100 \<or> 999 < code then out = Inl InvalidWriteHeaderCode
        else if distinguishes_404 \<and> code = StatusNotFound
        then out = Inr (http_Error (''Digimon non trouv'' @ [CHR 0xC3, CHR 0xA9]) code)
        else (case err of
                None \<Rightarrow> False
              | Some msg \<Rightarrow>
                  out = Inr (http_Error
                    (''Erreur service - code: '' @ Sprintf_d code @ [CHR 0x0A] @ ''message: '' @ msg)
                    code)))"

text \<open>Whether a string starts, or ends, with the UTF-8 encoding of a white-space rune.\<close>

definition starts_with_space :: "string \<Rightarrow> bool" where
  "starts_with_space s = (spaceWidth whiteSpace s \<noteq> 0)"

definition ends_with_space :: "string \<Rightarrow> bool" where
  "ends_with_space s = (spaceWidth (map rev whiteSpace) (rev s) \<noteq> 0)"

text \<open>A decimal numeral as \<open>strconv.Atoi\<close> reads it: an optional sign, then one digit or more.\<close>

definition numeral_text :: "string \<Rightarrow> bool" where
  "numeral_text s =
     (let ds = (if s \<noteq> [] \<and> (hd s = CHR ''-'' \<or> hd s = CHR ''+'') then tl s else s)
      in ds \<noteq> [] \<and> list_all isDigit ds)"

section \<open>Examples\<close>

text \<open>Concrete upstreams and requests, on which the theorems below are run.\<close>

definition example_summary :: DigimonSummary where
  "example_summary =
     \<lparr>Summary_ID = 1, Summary_Name = ''Garummon'',
      Summary_Href = ''https://digi-api.com/api/v1/digimon/1'',
      Summary_Image = ''https://digi-api.com/images/digimon/w/Garummon.png''\<rparr>"

definition example_page :: DigimonListResponse where
  "example_page =
     \<lparr>Content = [example_summary],
      Pageable = \<lparr>Pageable_Sort = \<lparr>Sorted = False, Unsorted = True, Sort_Empty = True\<rparr>,
                  PageNumber = 0, Pageable_PageSize = 500, Offset = 0, Paged = True,
                  Unpaged = False\<rparr>,
      TotalElements = 1, TotalPages = 1, Last = True, First = True, Size = 500, Number = 0,
      NumberOfElements = 1, Empty = False\<rparr>"

definition example_digimon :: Digimon where
  "example_digimon =
     \<lparr>Digimon_ID = 1, Digimon_Name = ''Garummon'', Digimon_XAntibody = False,
      Digimon_Images = [], Digimon_Levels = [], Digimon_Types = [], Digimon_Attributes = [],
      Digimon_Fields = [], Digimon_Skills = [], Digimon_Descriptions = []\<rparr>"

text \<open>An upstream that accepts every URL, gives the same answer to every request, and decodes
  every body but the empty one.\<close>

definition example_upstream :: "(string + Response) \<Rightarrow> Upstream" where
  "example_upstream answer =
     \<lparr>NewRequest_error = (\<lambda>url. None),
      RoundTrip = (\<lambda>c req. answer),
      Decode_Digimon = (\<lambda>body. if body = [] then Inl ''EOF'' else Inr example_digimon),
      Decode_DigimonListResponse = (\<lambda>body. if body = [] then Inl ''EOF'' else Inr example_page),
      Decode_Attribute =
        (\<lambda>body. if body = [] then Inl ''EOF''
                 else Inr \<lparr>Attribute_ID = 1, Attribute_Attribute = ''Vaccine'',
                           Attribute_Digimons = [example_summary]\<rparr>),
      Decode_Level =
        (\<lambda>body. if body = [] then Inl ''EOF''
                 else Inr \<lparr>Level_ID = 1, Level_Level = ''Rookie'',
                           Level_Digimons = [example_summary]\<rparr>)\<rparr>"

definition answer_200 :: "string + Response" where
  "answer_200 = Inr \<lparr>StatusCode = 200, Body = ''{}''\<rparr>"

definition answer_404 :: "string + Response" where
  "answer_404 = Inr \<lparr>StatusCode = 404, Body = []\<rparr>"

definition answer_099 :: "string + Response" where
  "answer_099 = Inr \<lparr>StatusCode = 99, Body = []\<rparr>"

definition answer_503 :: "string + Response" where
  "answer_503 = Inr \<lparr>StatusCode = 503, Body = []\<rparr>"

definition answer_timeout :: "string + Response" where
  "answer_timeout = Inl ''context deadline exceeded''"

definition example_incoming :: "Values \<Rightarrow> Values \<Rightarrow> Incoming" where
  "example_incoming query form = \<lparr>URL_Query = query, ParseForm_error = None, Form = form\<rparr>"

text \<open>A request that passes the checks of every handler.\<close>

definition example_lookup :: Incoming where
  "example_lookup =
     example_incoming
       [''id'' \<mapsto> [''7''], ''name'' \<mapsto> [''agumon''], ''attribute'' \<mapsto> [''Vaccine''],
        ''level'' \<mapsto> [''Rookie'']]
       [''query'' \<mapsto> [''agumon'']]"

section \<open>Properties of the services\<close>

subsection \<open>Shared facts\<close>

lemma Add_apply:
  "Add v key val k = (if k = key then Some (index_Values v key @ [val]) else v k)"
  by (simp add: Add_def)

lemma Atoi_empty: "Atoi [] = Inl ErrSyntax"
  by (simp add: Atoi_def)

lemma parseDigits_not_digits: "\<not> list_all isDigit ds \<Longrightarrow> isl (parseDigits n ds)"
  by (induction ds arbitrary: n) auto

lemma Atoi_not_numeral: "\<not> numeral_text s \<Longrightarrow> isl (Atoi s)"
  using parseDigits_not_digits [of "if s \<noteq> [] \<and> (hd s = CHR ''-'' \<or> hd s = CHR ''+'') then tl s else s" 0]
  by (auto simp: Atoi_def numeral_text_def Let_def isl_def split: sum.splits)

lemma spaceWidth_trimLeft: "spaceWidth encs (trimLeft encs s) = 0"
  by (induction encs s rule: trimLeft.induct) (subst trimLeft.simps, simp)

lemma trimLeft_suffix: "\<exists>a. s = a @ trimLeft encs s"
proof (induction encs s rule: trimLeft.induct)
  case (1 encs s)
  show ?case
  proof (cases "spaceWidth encs s = 0")
    case True
    then show ?thesis
      by (subst trimLeft.simps) simp
  next
    case False
    with 1 obtain a where
      a: "drop (spaceWidth encs s) s = a @ trimLeft encs (drop (spaceWidth encs s) s)"
      by blast
    have step: "trimLeft encs s = trimLeft encs (drop (spaceWidth encs s) s)"
      using False by (subst trimLeft.simps) simp
    have "s = take (spaceWidth encs s) s @ drop (spaceWidth encs s) s"
      by simp
    also have "\<dots> = (take (spaceWidth encs s) s @ a) @ trimLeft encs s"
      using a step by simp
    finally have "s = (take (spaceWidth encs s) s @ a) @ trimLeft encs s" .
    then show ?thesis
      by blast
  qed
qed

lemma spaceWidth_prefix:
  assumes "spaceWidth encs (t @ b) = 0"
  shows "spaceWidth encs t = 0"
proof (rule ccontr)
  assume "spaceWidth encs t \<noteq> 0"
  then obtain e where e: "find (\<lambda>e. e \<noteq> [] \<and> take (length e) t = e) encs = Some e"
    by (auto simp: spaceWidth_def split: option.splits)
  then have "e \<in> set encs" "e \<noteq> []" "take (length e) t = e"
    by (auto simp: find_Some_iff)
  then have "length e \<le> length t"
    by (metis nat_le_linear take_all)
  with \<open>take (length e) t = e\<close> have "take (length e) (t @ b) = e"
    by simp
  with \<open>e \<in> set encs\<close> \<open>e \<noteq> []\<close>
  have "find (\<lambda>e. e \<noteq> [] \<and> take (length e) (t @ b) = e) encs \<noteq> None"
    by (auto simp: find_None_iff)
  then have "spaceWidth encs (t @ b) \<noteq> 0"
    by (auto simp: spaceWidth_def find_Some_iff split: option.splits)
  with assms show False
    by simp
qed

text \<open>What \<open>strings.TrimSpace\<close> returns is a part of its argument that neither starts nor
  ends with white space.\<close>

lemma TrimSpace_trimmed:
  "\<not> starts_with_space (TrimSpace s) \<and> \<not> ends_with_space (TrimSpace s) \<and>
   (\<exists>a b. s = a @ TrimSpace s @ b)"
proof -
  let ?t = "trimLeft whiteSpace s"
  let ?u = "trimLeft (map rev whiteSpace) (rev ?t)"
  obtain a where a: "s = a @ ?t"
    using trimLeft_suffix by blast
  obtain c where c: "rev ?t = c @ ?u"
    using trimLeft_suffix by blast
  then have t: "?t = rev ?u @ rev c"
    by (metis rev_append rev_rev_ident)
  have "spaceWidth whiteSpace ?t = 0"
    by (rule spaceWidth_trimLeft)
  then have 1: "spaceWidth whiteSpace (rev ?u) = 0"
    using t spaceWidth_prefix [of whiteSpace "rev ?u" "rev c"] by simp
  have 2: "spaceWidth (map rev whiteSpace) ?u = 0"
    by (rule spaceWidth_trimLeft)
  have 3: "s = a @ rev ?u @ rev c"
    using a t by simp
  from 1 2 3 show ?thesis
    unfolding TrimSpace_def starts_with_space_def ends_with_space_def by auto
qed

lemma Sprintf_d_examples:
  "Sprintf_d 20 = ''20''" "Sprintf_d 50 = ''50''" "Sprintf_d 100 = ''100''"
  "Sprintf_d 500 = ''500''"
  by (simp_all add: Sprintf_d_def natToDec.simps digitChar_def)

text \<open>The values \<open>GetAllDigimons\<close> adds to an empty query, key by key.\<close>

lemma addOptions_apply:
  "addOptions opts Map.empty k =
     (if k = ''pageSize'' \<and> PageSize opts > 0 then Some [Sprintf_d (PageSize opts)]
      else if k = ''page'' \<and> Page opts > 0 then Some [Sprintf_d (Page opts)]
      else if k = ''level'' \<and> Level opts \<noteq> [] then Some [Level opts]
      else if k = ''xAntibody'' \<and> XAntibody opts \<noteq> None
        then Some [if the (XAntibody opts) then ''true'' else ''false'']
      else if k = ''attribute'' \<and> Attribute opts \<noteq> [] then Some [Attribute opts]
      else if k = ''exact'' \<and> Exact opts then Some [''true'']
      else if k = ''name'' \<and> Name opts \<noteq> [] then Some [Name opts]
      else None)"
proof -
  define q1 where "q1 = (if Name opts \<noteq> [] then Add Map.empty ''name'' (Name opts) else Map.empty)"
  define q2 where "q2 = (if Exact opts then Add q1 ''exact'' ''true'' else q1)"
  define q3 where
    "q3 = (if Attribute opts \<noteq> [] then Add q2 ''attribute'' (Attribute opts) else q2)"
  define q4 where
    "q4 = (case XAntibody opts of
             None \<Rightarrow> q3
           | Some x \<Rightarrow> if x then Add q3 ''xAntibody'' ''true'' else Add q3 ''xAntibody'' ''false'')"
  define q5 where "q5 = (if Level opts \<noteq> [] then Add q4 ''level'' (Level opts) else q4)"
  define q6 where "q6 = (if Page opts > 0 then Add q5 ''page'' (Sprintf_d (Page opts)) else q5)"
  define q7 where
    "q7 = (if PageSize opts > 0 then Add q6 ''pageSize'' (Sprintf_d (PageSize opts)) else q6)"
  have q: "addOptions opts Map.empty = q7"
    unfolding addOptions_def Let_def q7_def q6_def q5_def q4_def q3_def q2_def q1_def ..
  have v1: "q1 k = (if k = ''name'' \<and> Name opts \<noteq> [] then Some [Name opts] else None)" for k
    by (simp add: q1_def Add_apply index_Values_def)
  have v2: "q2 k = (if k = ''exact'' \<and> Exact opts then Some [''true''] else q1 k)" for k
    by (simp add: q2_def Add_apply index_Values_def v1)
  have v3: "q3 k = (if k = ''attribute'' \<and> Attribute opts \<noteq> [] then Some [Attribute opts]
                    else q2 k)" for k
    by (simp add: q3_def Add_apply index_Values_def v2 v1)
  have v4: "q4 k = (if k = ''xAntibody'' \<and> XAntibody opts \<noteq> None
                    then Some [if the (XAntibody opts) then ''true'' else ''false'']
                    else q3 k)" for k
    by (simp add: q4_def Add_apply index_Values_def v3 v2 v1 split: option.splits)
  have v5: "q5 k = (if k = ''level'' \<and> Level opts \<noteq> [] then Some [Level opts] else q4 k)" for k
    by (simp add: q5_def Add_apply index_Values_def v4 v3 v2 v1)
  have v6: "q6 k = (if k = ''page'' \<and> Page opts > 0 then Some [Sprintf_d (Page opts)]
                    else q5 k)" for k
    by (simp add: q6_def Add_apply index_Values_def v5 v4 v3 v2 v1)
  have v7: "q7 k = (if k = ''pageSize'' \<and> PageSize opts > 0 then Some [Sprintf_d (PageSize opts)]
                    else q6 k)" for k
    by (simp add: q7_def Add_apply index_Values_def v6 v5 v4 v3 v2 v1)
  show ?thesis
    unfolding q v7 v6 v5 v4 v3 v2 v1 ..
qed

text \<open>The query of a list whose options set the page and its size only.\<close>

lemma addOptions_page:
  assumes "Name opts = []" and "\<not> Exact opts" and "Attribute opts = []"
    and "XAntibody opts = None" and "Level opts = []" and "0 < PageSize opts"
  shows "addOptions opts Map.empty =
           (if 0 < Page opts
            then [''page'' \<mapsto> [Sprintf_d (Page opts)], ''pageSize'' \<mapsto> [Sprintf_d (PageSize opts)]]
            else [''pageSize'' \<mapsto> [Sprintf_d (PageSize opts)]])"
  using assms by (intro ext) (simp add: addOptions_apply)

lemma GetAllDigimons_sent:
  "NewRequest_error up (digimonAPIBaseURL @ ''/digimon'') = None \<Longrightarrow>
   snd (GetAllDigimons up ctx opts sent) =
     sent @ [withOptions opts (request_of ctx (digimonAPIBaseURL @ ''/digimon''))]"
  by (simp add: GetAllDigimons_def NewRequestWithContext_def Do_def request_of_def
      split: sum.splits)

lemma fetchDigimon_sent:
  "NewRequest_error up url = None \<Longrightarrow>
   snd (fetchDigimon up ctx url sent) = sent @ [request_of ctx url]"
  by (simp add: fetchDigimon_def NewRequestWithContext_def Do_def request_of_def
      split: sum.splits)

lemma fetchDigimon_invariant: "service_invariant (fst (fetchDigimon up ctx url sent))"
  by (simp add: fetchDigimon_def service_invariant_def NewRequestWithContext_def Do_def
      split: sum.splits option.splits)

lemma fetchAttribute_invariant: "service_invariant (fst (fetchAttribute up ctx url sent))"
  by (simp add: fetchAttribute_def service_invariant_def NewRequestWithContext_def Do_def
      split: sum.splits option.splits)

lemma fetchLevel_invariant: "service_invariant (fst (fetchLevel up ctx url sent))"
  by (simp add: fetchLevel_def service_invariant_def NewRequestWithContext_def Do_def
      split: sum.splits option.splits)

lemma GetAllDigimons_invariant: "service_invariant (fst (GetAllDigimons up ctx opts sent))"
  by (simp add: GetAllDigimons_def service_invariant_def NewRequestWithContext_def Do_def
      split: sum.splits option.splits)

lemma GetDigimonByID_invariant: "service_invariant (fst (GetDigimonByID up ctx ident sent))"
  by (simp add: GetDigimonByID_def fetchDigimon_invariant)

lemma GetDigimonByName_invariant: "service_invariant (fst (GetDigimonByName up ctx name sent))"
  by (simp add: GetDigimonByName_def fetchDigimon_invariant)

lemma GetAttributeByID_invariant:
  "service_invariant (fst (GetAttributeByID up ctx ident sent))"
  by (simp add: GetAttributeByID_def fetchAttribute_invariant)

lemma GetAttributeByName_invariant:
  "service_invariant (fst (GetAttributeByName up ctx name sent))"
  by (simp add: GetAttributeByName_def fetchAttribute_invariant)

lemma GetLevelByID_invariant: "service_invariant (fst (GetLevelByID up ctx ident sent))"
  by (simp add: GetLevelByID_def fetchLevel_invariant)

lemma GetLevelByName_invariant: "service_invariant (fst (GetLevelByName up ctx name sent))"
  by (simp add: GetLevelByName_def fetchLevel_invariant)

lemma fetchDigimon_contract:
  "NewRequest_error up url = None \<Longrightarrow>
   service_contract (RoundTrip up httpClient (request_of ctx url)) (Decode_Digimon up)
     (fst (fetchDigimon up ctx url sent))"
  by (simp add: fetchDigimon_def service_contract_def NewRequestWithContext_def Do_def
      request_of_def split: sum.splits)

lemma fetchAttribute_contract:
  "NewRequest_error up url = None \<Longrightarrow>
   service_contract (RoundTrip up httpClient (request_of ctx url)) (Decode_Attribute up)
     (fst (fetchAttribute up ctx url sent))"
  by (simp add: fetchAttribute_def service_contract_def NewRequestWithContext_def Do_def
      request_of_def split: sum.splits)

lemma fetchLevel_contract:
  "NewRequest_error up url = None \<Longrightarrow>
   service_contract (RoundTrip up httpClient (request_of ctx url)) (Decode_Level up)
     (fst (fetchLevel up ctx url sent))"
  by (simp add: fetchLevel_def service_contract_def NewRequestWithContext_def Do_def
      request_of_def split: sum.splits)

lemma GetAllDigimons_contract:
  "NewRequest_error up (digimonAPIBaseURL @ ''/digimon'') = None \<Longrightarrow>
   service_contract
     (RoundTrip up httpClient (withOptions opts (request_of ctx (digimonAPIBaseURL @ ''/digimon''))))
     (Decode_DigimonListResponse up) (fst (GetAllDigimons up ctx opts sent))"
  by (simp add: GetAllDigimons_def service_contract_def NewRequestWithContext_def Do_def
      request_of_def split: sum.splits)

lemma contract_not_nil:
  "service_contract answer decode res \<Longrightarrow> (fst res \<noteq> None) = decoded_200 answer decode"
  by (cases res) (auto simp: service_contract_def decoded_200_def split: sum.splits if_splits)

text \<open>What the example upstream that answers 200 gives to a list request.\<close>

lemma example_list_200:
  "GetAllDigimons (example_upstream answer_200) ctx opts sent =
     ((Some example_page, 200, None),
      sent @ [withOptions opts (request_of ctx (digimonAPIBaseURL @ ''/digimon''))])"
  by (simp add: GetAllDigimons_def NewRequestWithContext_def Do_def request_of_def
      example_upstream_def answer_200_def)

subsection \<open>The query of the list\<close>

text \<open>
  C1. Whatever options \<open>GetAllDigimons\<close> is given, the query of the request it sends holds
  \<open>name\<close> exactly when \<open>Name\<close> is not empty, \<open>exact=true\<close> exactly when \<open>Exact\<close> is set,
  \<open>attribute\<close> exactly when \<open>Attribute\<close> is not empty, \<open>xAntibody\<close> (\<open>true\<close> or \<open>false\<close>)
  exactly when the pointer is not nil, \<open>level\<close> exactly when \<open>Level\<close> is not empty, \<open>page\<close>
  exactly when \<open>Page > 0\<close> and \<open>pageSize\<close> exactly when \<open>PageSize > 0\<close>, each once and with
  the value of the field, and no other parameter. The hypothesis says that the standard
  library builds a request for the URL of the list, which is a constant of the program.
\<close>

theorem GetAllDigimons_query:
  assumes "NewRequest_error up (digimonAPIBaseURL @ ''/digimon'') = None"
  shows "\<exists>q. snd (GetAllDigimons up ctx (Some opts) sent) =
           sent @ [\<lparr>Ctx = ctx, Method = ''GET'', URL = digimonAPIBaseURL @ ''/digimon'',
                    Query = q\<rparr>] \<and>
         q ''name'' = (if Name opts \<noteq> [] then Some [Name opts] else None) \<and>
         q ''exact'' = (if Exact opts then Some [''true''] else None) \<and>
         q ''attribute'' = (if Attribute opts \<noteq> [] then Some [Attribute opts] else None) \<and>
         q ''xAntibody'' =
           (case XAntibody opts of
              None \<Rightarrow> None
            | Some x \<Rightarrow> Some [if x then ''true'' else ''false'']) \<and>
         q ''level'' = (if Level opts \<noteq> [] then Some [Level opts] else None) \<and>
         q ''page'' = (if Page opts > 0 then Some [Sprintf_d (Page opts)] else None) \<and>
         q ''pageSize'' = (if PageSize opts > 0 then Some [Sprintf_d (PageSize opts)] else None) \<and>
         dom q \<subseteq> {''name'', ''exact'', ''attribute'', ''xAntibody'', ''level'', ''page'',
                    ''pageSize''}"
proof -
  let ?q = "addOptions opts Map.empty"
  have sent: "snd (GetAllDigimons up ctx (Some opts) sent) =
      sent @ [\<lparr>Ctx = ctx, Method = ''GET'', URL = digimonAPIBaseURL @ ''/digimon'', Query = ?q\<rparr>]"
    using GetAllDigimons_sent [OF assms, of ctx "Some opts" sent]
    by (simp add: withOptions_def request_of_def)
  have name: "?q ''name'' = (if Name opts \<noteq> [] then Some [Name opts] else None)"
    by (simp add: addOptions_apply)
  have exact: "?q ''exact'' = (if Exact opts then Some [''true''] else None)"
    by (simp add: addOptions_apply)
  have attribute: "?q ''attribute'' = (if Attribute opts \<noteq> [] then Some [Attribute opts] else None)"
    by (simp add: addOptions_apply)
  have xAntibody: "?q ''xAntibody'' =
      (case XAntibody opts of None \<Rightarrow> None | Some x \<Rightarrow> Some [if x then ''true'' else ''false''])"
    by (simp add: addOptions_apply split: option.splits)
  have level: "?q ''level'' = (if Level opts \<noteq> [] then Some [Level opts] else None)"
    by (simp add: addOptions_apply)
  have page: "?q ''page'' = (if Page opts > 0 then Some [Sprintf_d (Page opts)] else None)"
    by (simp add: addOptions_apply)
  have pageSize: "?q ''pageSize'' =
      (if PageSize opts > 0 then Some [Sprintf_d (PageSize opts)] else None)"
    by (simp add: addOptions_apply)
  have others: "dom ?q \<subseteq> {''name'', ''exact'', ''attribute'', ''xAntibody'', ''level'', ''page'',
      ''pageSize''}"
  proof (rule subsetI)
    fix k
    assume "k \<in> dom ?q"
    then have "?q k \<noteq> None"
      by (simp add: dom_def)
    then show "k \<in> {''name'', ''exact'', ''attribute'', ''xAntibody'', ''level'', ''page'',
        ''pageSize''}"
      unfolding addOptions_apply by (simp split: if_splits)
  qed
  show ?thesis
    by (rule exI [of _ ?q])
      (intro conjI sent name exact attribute xAntibody level page pageSize others)
qed

theorem GetAllDigimons_query_witness:
  "\<exists>q. snd (GetAllDigimons (example_upstream answer_200) Background
             (Some \<lparr>Name = ''agu'', Exact = True, Attribute = [], XAntibody = Some False,
                    Level = ''Rookie'', Page = 2, PageSize = 20\<rparr>) []) =
           [\<lparr>Ctx = Background, Method = ''GET'', URL = digimonAPIBaseURL @ ''/digimon'',
             Query = q\<rparr>] \<and>
         q ''name'' = Some [''agu''] \<and>
         q ''exact'' = Some [''true''] \<and>
         q ''attribute'' = None \<and>
         q ''xAntibody'' = Some [''false''] \<and>
         q ''level'' = Some [''Rookie''] \<and>
         q ''page'' = Some [''2''] \<and>
         q ''pageSize'' = Some [''20''] \<and>
         dom q \<subseteq> {''name'', ''exact'', ''attribute'', ''xAntibody'', ''level'', ''page'',
                    ''pageSize''}"
  using GetAllDigimons_query [of "example_upstream answer_200" Background
      "\<lparr>Name = ''agu'', Exact = True, Attribute = [], XAntibody = Some False,
        Level = ''Rookie'', Page = 2, PageSize = 20\<rparr>" "[]"]
  by (simp add: example_upstream_def Sprintf_d_def natToDec.simps digitChar_def)

subsection \<open>The contract of a fetch\<close>

text \<open>
  C6. Each of \<open>fetchDigimon\<close>, \<open>fetchAttribute\<close>, \<open>fetchLevel\<close> and \<open>GetAllDigimons\<close> keeps the
  contract of a fetch on the request it sends: a response whose status is not 200 yields
  nil, that status and the error "code HTTP inattendu" with the code; a body that does not
  decode yields nil, 500 and the decode error; a transport failure yields nil, 500 and the
  transport error; and the result is not nil exactly when the status is 200 and the body
  decodes. The hypotheses say that the standard library builds the request for the URL.
\<close>

theorem fetch_contract:
  assumes url: "NewRequest_error up url = None"
    and list: "NewRequest_error up (digimonAPIBaseURL @ ''/digimon'') = None"
  shows
    "service_contract (RoundTrip up httpClient (request_of ctx url)) (Decode_Digimon up)
       (fst (fetchDigimon up ctx url sent)) \<and>
     (fst (fst (fetchDigimon up ctx url sent)) \<noteq> None) =
       decoded_200 (RoundTrip up httpClient (request_of ctx url)) (Decode_Digimon up) \<and>
     service_contract (RoundTrip up httpClient (request_of ctx url)) (Decode_Attribute up)
       (fst (fetchAttribute up ctx url sent)) \<and>
     (fst (fst (fetchAttribute up ctx url sent)) \<noteq> None) =
       decoded_200 (RoundTrip up httpClient (request_of ctx url)) (Decode_Attribute up) \<and>
     service_contract (RoundTrip up httpClient (request_of ctx url)) (Decode_Level up)
       (fst (fetchLevel up ctx url sent)) \<and>
     (fst (fst (fetchLevel up ctx url sent)) \<noteq> None) =
       decoded_200 (RoundTrip up httpClient (request_of ctx url)) (Decode_Level up) \<and>
     service_contract
       (RoundTrip up httpClient
          (withOptions opts (request_of ctx (digimonAPIBaseURL @ ''/digimon''))))
       (Decode_DigimonListResponse up) (fst (GetAllDigimons up ctx opts sent)) \<and>
     (fst (fst (GetAllDigimons up ctx opts sent)) \<noteq> None) =
       decoded_200
         (RoundTrip up httpClient
            (withOptions opts (request_of ctx (digimonAPIBaseURL @ ''/digimon''))))
         (Decode_DigimonListResponse up)"
  by (intro conjI fetchDigimon_contract fetchAttribute_contract fetchLevel_contract
      GetAllDigimons_contract contract_not_nil url list)

theorem fetch_contract_witness:
  "fst (fetchDigimon (example_upstream answer_404) Background
          ''https://digi-api.com/api/v1/digimon/0'' []) =
     (None, 404, Some ''code HTTP inattendu: 404'') \<and>
   fst (fetchAttribute (example_upstream answer_timeout) Background
          ''https://digi-api.com/api/v1/attribute/Vaccine'' []) =
     (None, 500,
      Some (''erreur requ'' @ [CHR 0xC3, CHR 0xAA] @ ''te HTTP: context deadline exceeded'')) \<and>
   fst (fetchLevel (example_upstream (Inr \<lparr>StatusCode = 200, Body = []\<rparr>)) Background
          ''https://digi-api.com/api/v1/level/Rookie'' []) =
     (None, 500, Some (''erreur d'' @ [CHR 0xC3, CHR 0xA9] @ ''codage JSON: EOF'')) \<and>
   fst (GetAllDigimons (example_upstream answer_200) Background None []) =
     (Some example_page, 200, None)"
  using
    fetch_contract [of "example_upstream answer_404" "''https://digi-api.com/api/v1/digimon/0''"
      Background "[]" None]
    fetch_contract [of "example_upstream answer_timeout"
      "''https://digi-api.com/api/v1/attribute/Vaccine''" Background "[]" None]
    fetch_contract [of "example_upstream (Inr \<lparr>StatusCode = 200, Body = []\<rparr>)"
      "''https://digi-api.com/api/v1/level/Rookie''" Background "[]" None]
    fetch_contract [of "example_upstream answer_200" "[]" Background "[]" None]
  by (simp add: example_upstream_def answer_404_def answer_timeout_def answer_200_def
      service_contract_def Sprintf_d_def natToDec.simps digitChar_def)

subsection \<open>The versions without a context\<close>

text \<open>
  C10. Each version of a service without a context is the service itself, applied to the
  background context: the two are the same function of the remaining arguments.
\<close>

theorem Simple_versions:
  "GetDigimonByIDSimple up = GetDigimonByID up Background \<and>
   GetDigimonByNameSimple up = GetDigimonByName up Background \<and>
   GetAllDigimonsSimple up = GetAllDigimons up Background"
  by (intro conjI ext)
    (simp_all add: GetDigimonByIDSimple_def GetDigimonByNameSimple_def GetAllDigimonsSimple_def)

section \<open>Properties of the controllers\<close>

subsection \<open>Shared facts\<close>

text \<open>What a handler does with the result of its service when the status is not 200, and
  what it sends upstream.\<close>

lemma DisplayListDigimons_error:
  assumes
    "status_of (fst (GetAllDigimons up createContext (Some DisplayListDigimons_opts) sent))
       \<noteq> StatusOK"
  shows
    "error_mapping False
       (fst (GetAllDigimons up createContext (Some DisplayListDigimons_opts) sent))
       (fst (DisplayListDigimons up r sent))"
proof -
  have "service_invariant (fst (GetAllDigimons up createContext (Some DisplayListDigimons_opts) sent))"
    by (rule GetAllDigimons_invariant)
  with assms show ?thesis
    by (cases "GetAllDigimons up createContext (Some DisplayListDigimons_opts) sent")
      (clarsimp simp: DisplayListDigimons_def Let_def error_mapping_def call_http_Error_def
         service_invariant_def status_of_def Sprintf_Erreur_service_def
         split: option.splits prod.splits)
qed

lemma DisplayListDigimons_sent:
  shows
    "snd (DisplayListDigimons up r sent) =
       snd (GetAllDigimons up createContext (Some DisplayListDigimons_opts) sent)"
  by (cases "GetAllDigimons up createContext (Some DisplayListDigimons_opts) sent")
    (auto simp: DisplayListDigimons_def Let_def Atoi_empty call_http_Error_def
       split: option.splits prod.splits)

lemma DisplayListDigimonsWithPagination_error:
  assumes
    "status_of (fst (GetAllDigimons up createContext
                       (Some (DisplayListDigimonsWithPagination_opts r)) sent))
       \<noteq> StatusOK"
  shows
    "error_mapping False
       (fst (GetAllDigimons up createContext
               (Some (DisplayListDigimonsWithPagination_opts r)) sent))
       (fst (DisplayListDigimonsWithPagination up r sent))"
proof -
  have "service_invariant (fst (GetAllDigimons up createContext
                                  (Some (DisplayListDigimonsWithPagination_opts r)) sent))"
    by (rule GetAllDigimons_invariant)
  with assms show ?thesis
    by (cases "GetAllDigimons up createContext
                 (Some (DisplayListDigimonsWithPagination_opts r)) sent")
      (clarsimp simp: DisplayListDigimonsWithPagination_def Let_def error_mapping_def call_http_Error_def
         service_invariant_def status_of_def Sprintf_Erreur_service_def
         split: option.splits prod.splits)
qed

lemma DisplayListDigimonsWithPagination_sent:
  shows
    "snd (DisplayListDigimonsWithPagination up r sent) =
       snd (GetAllDigimons up createContext
              (Some (DisplayListDigimonsWithPagination_opts r)) sent)"
  by (cases "GetAllDigimons up createContext
               (Some (DisplayListDigimonsWithPagination_opts r)) sent")
    (auto simp: DisplayListDigimonsWithPagination_def Let_def Atoi_empty call_http_Error_def
       split: option.splits prod.splits)

lemma DisplaySearch_error:
  assumes
    "TrimSpace (FormValue r ''query'') \<noteq> []" and
    "status_of (fst (GetAllDigimons up createContext
                       (Some (DisplaySearch_opts (TrimSpace (FormValue r ''query'')))) sent))
       \<noteq> StatusOK"
  shows
    "error_mapping False
       (fst (GetAllDigimons up createContext
               (Some (DisplaySearch_opts (TrimSpace (FormValue r ''query'')))) sent))
       (fst (DisplaySearch up r sent))"
proof -
  have "service_invariant (fst (GetAllDigimons up createContext
                                  (Some (DisplaySearch_opts (TrimSpace (FormValue r ''query'')))) sent))"
    by (rule GetAllDigimons_invariant)
  with assms show ?thesis
    by (cases "GetAllDigimons up createContext
                 (Some (DisplaySearch_opts (TrimSpace (FormValue r ''query'')))) sent")
      (clarsimp simp: DisplaySearch_def Let_def error_mapping_def call_http_Error_def
         service_invariant_def status_of_def Sprintf_Erreur_service_def
         split: option.splits prod.splits)
qed

lemma DisplaySearch_sent:
  assumes
    "TrimSpace (FormValue r ''query'') \<noteq> []"
  shows
    "snd (DisplaySearch up r sent) =
       snd (GetAllDigimons up createContext
              (Some (DisplaySearch_opts (TrimSpace (FormValue r ''query'')))) sent)"
  using assms
  by (cases "GetAllDigimons up createContext
               (Some (DisplaySearch_opts (TrimSpace (FormValue r ''query'')))) sent")
    (auto simp: DisplaySearch_def Let_def Atoi_empty call_http_Error_def
       split: option.splits prod.splits)

lemma DisplaySearchAdvanced_error:
  assumes
    "TrimSpace (FormValue r ''query'') \<noteq> []" and
    "status_of (fst (GetAllDigimons up createContext
                       (Some (DisplaySearchAdvanced_opts (TrimSpace (FormValue r ''query''))
                          (FormValue r ''exact'' = ''true'' \<or> FormValue r ''exact'' = ''on''))) sent))
       \<noteq> StatusOK"
  shows
    "error_mapping False
       (fst (GetAllDigimons up createContext
               (Some (DisplaySearchAdvanced_opts (TrimSpace (FormValue r ''query''))
                  (FormValue r ''exact'' = ''true'' \<or> FormValue r ''exact'' = ''on''))) sent))
       (fst (DisplaySearchAdvanced up r sent))"
proof -
  have "service_invariant (fst (GetAllDigimons up createContext
                                  (Some (DisplaySearchAdvanced_opts (TrimSpace (FormValue r ''query''))
                                     (FormValue r ''exact'' = ''true'' \<or> FormValue r ''exact'' = ''on''))) sent))"
    by (rule GetAllDigimons_invariant)
  with assms show ?thesis
    by (cases "GetAllDigimons up createContext
                 (Some (DisplaySearchAdvanced_opts (TrimSpace (FormValue r ''query''))
                    (FormValue r ''exact'' = ''true'' \<or> FormValue r ''exact'' = ''on''))) sent")
      (clarsimp simp: DisplaySearchAdvanced_def Let_def error_mapping_def call_http_Error_def
         service_invariant_def status_of_def Sprintf_Erreur_service_def
         split: option.splits prod.splits)
qed

lemma DisplaySearchAdvanced_sent:
  assumes
    "TrimSpace (FormValue r ''query'') \<noteq> []"
  shows
    "snd (DisplaySearchAdvanced up r sent) =
       snd (GetAllDigimons up createContext
              (Some (DisplaySearchAdvanced_opts (TrimSpace (FormValue r ''query''))
                 (FormValue r ''exact'' = ''true'' \<or> FormValue r ''exact'' = ''on''))) sent)"
  using assms
  by (cases "GetAllDigimons up createContext
               (Some (DisplaySearchAdvanced_opts (TrimSpace (FormValue r ''query''))
                  (FormValue r ''exact'' = ''true'' \<or> FormValue r ''exact'' = ''on''))) sent")
    (auto simp: DisplaySearchAdvanced_def Let_def Atoi_empty call_http_Error_def
       split: option.splits prod.splits)

lemma DisplayFilter_error:
  assumes
    "ParseForm_error r = None" and
    "status_of (fst (GetAllDigimons up createContext
                       (Some (DisplayFilter_opts (TrimSpace (FormValue r ''level''))
                          (TrimSpace (FormValue r ''attribute'')) (FormValue r ''xantibody''))) sent))
       \<noteq> StatusOK"
  shows
    "error_mapping False
       (fst (GetAllDigimons up createContext
               (Some (DisplayFilter_opts (TrimSpace (FormValue r ''level''))
                  (TrimSpace (FormValue r ''attribute'')) (FormValue r ''xantibody''))) sent))
       (fst (DisplayFilter up r sent))"
proof -
  have "service_invariant (fst (GetAllDigimons up createContext
                                  (Some (DisplayFilter_opts (TrimSpace (FormValue r ''level''))
                                     (TrimSpace (FormValue r ''attribute'')) (FormValue r ''xantibody''))) sent))"
    by (rule GetAllDigimons_invariant)
  with assms show ?thesis
    by (cases "GetAllDigimons up createContext
                 (Some (DisplayFilter_opts (TrimSpace (FormValue r ''level''))
                    (TrimSpace (FormValue r ''attribute'')) (FormValue r ''xantibody''))) sent")
      (clarsimp simp: DisplayFilter_def Let_def error_mapping_def call_http_Error_def
         service_invariant_def status_of_def Sprintf_Erreur_service_def
         split: option.splits prod.splits)
qed

lemma DisplayFilter_sent:
  assumes
    "ParseForm_error r = None"
  shows
    "snd (DisplayFilter up r sent) =
       snd (GetAllDigimons up createContext
              (Some (DisplayFilter_opts (TrimSpace (FormValue r ''level''))
                 (TrimSpace (FormValue r ''attribute'')) (FormValue r ''xantibody''))) sent)"
  using assms
  by (cases "GetAllDigimons up createContext
               (Some (DisplayFilter_opts (TrimSpace (FormValue r ''level''))
                  (TrimSpace (FormValue r ''attribute'')) (FormValue r ''xantibody''))) sent")
    (auto simp: DisplayFilter_def Let_def Atoi_empty call_http_Error_def
       split: option.splits prod.splits)

lemma DisplayFilterAdvanced_error:
  assumes
    "ParseForm_error r = None" and
    "status_of (fst (GetAllDigimons up createContext (Some DisplayFilterAdvanced_opts) sent))
       \<noteq> StatusOK"
  shows
    "error_mapping False
       (fst (GetAllDigimons up createContext (Some DisplayFilterAdvanced_opts) sent))
       (fst (DisplayFilterAdvanced up r sent))"
proof -
  have "service_invariant (fst (GetAllDigimons up createContext (Some DisplayFilterAdvanced_opts) sent))"
    by (rule GetAllDigimons_invariant)
  with assms show ?thesis
    by (cases "GetAllDigimons up createContext (Some DisplayFilterAdvanced_opts) sent")
      (clarsimp simp: DisplayFilterAdvanced_def Let_def error_mapping_def call_http_Error_def
         service_invariant_def status_of_def Sprintf_Erreur_service_def
         split: option.splits prod.splits)
qed

lemma DisplayFilterAdvanced_sent:
  assumes
    "ParseForm_error r = None"
  shows
    "snd (DisplayFilterAdvanced up r sent) =
       snd (GetAllDigimons up createContext (Some DisplayFilterAdvanced_opts) sent)"
  using assms
  by (cases "GetAllDigimons up createContext (Some DisplayFilterAdvanced_opts) sent")
    (auto simp: DisplayFilterAdvanced_def Let_def Atoi_empty call_http_Error_def
       split: option.splits prod.splits)

lemma DisplayDigimonDetails_error:
  assumes
    "Atoi (Get (URL_Query r) ''id'') = Inr ident" and
    "status_of (fst (GetDigimonByID up createContext ident sent))
       \<noteq> StatusOK"
  shows
    "error_mapping True
       (fst (GetDigimonByID up createContext ident sent))
       (fst (DisplayDigimonDetails up r sent))"
proof -
  have "service_invariant (fst (GetDigimonByID up createContext ident sent))"
    by (rule GetDigimonByID_invariant)
  moreover have "Get (URL_Query r) ''id'' \<noteq> []"
    using assms(1) by (auto simp: Atoi_empty)
  ultimately have "Get (URL_Query r) ''id'' \<noteq> [] \<and>
      service_invariant (fst (GetDigimonByID up createContext ident sent))"
    by simp
  with assms show ?thesis
    by (cases "GetDigimonByID up createContext ident sent")
      (auto simp: DisplayDigimonDetails_def Let_def error_mapping_def call_http_Error_def
         service_invariant_def status_of_def Sprintf_Erreur_service_def
         split: option.splits prod.splits)
qed

lemma DisplayDigimonDetails_sent:
  assumes
    "Atoi (Get (URL_Query r) ''id'') = Inr ident"
  shows
    "snd (DisplayDigimonDetails up r sent) =
       snd (GetDigimonByID up createContext ident sent)"
  using assms
  by (cases "GetDigimonByID up createContext ident sent")
    (auto simp: DisplayDigimonDetails_def Let_def Atoi_empty call_http_Error_def
       split: option.splits prod.splits)

lemma DisplayDigimonDetailsByName_error:
  assumes
    "Get (URL_Query r) ''name'' \<noteq> []" and
    "status_of (fst (GetDigimonByName up createContext (Get (URL_Query r) ''name'') sent))
       \<noteq> StatusOK"
  shows
    "error_mapping True
       (fst (GetDigimonByName up createContext (Get (URL_Query r) ''name'') sent))
       (fst (DisplayDigimonDetailsByName up r sent))"
proof -
  have "service_invariant (fst (GetDigimonByName up createContext (Get (URL_Query r) ''name'') sent))"
    by (rule GetDigimonByName_invariant)
  with assms show ?thesis
    by (cases "GetDigimonByName up createContext (Get (URL_Query r) ''name'') sent")
      (auto simp: DisplayDigimonDetailsByName_def Let_def error_mapping_def call_http_Error_def
         service_invariant_def status_of_def Sprintf_Erreur_service_def
         split: option.splits prod.splits)
qed

lemma DisplayDigimonDetailsByName_sent:
  assumes
    "Get (URL_Query r) ''name'' \<noteq> []"
  shows
    "snd (DisplayDigimonDetailsByName up r sent) =
       snd (GetDigimonByName up createContext (Get (URL_Query r) ''name'') sent)"
  using assms
  by (cases "GetDigimonByName up createContext (Get (URL_Query r) ''name'') sent")
    (auto simp: DisplayDigimonDetailsByName_def Let_def Atoi_empty call_http_Error_def
       split: option.splits prod.splits)

lemma DisplayDigimonsByAttribute_error:
  assumes
    "Get (URL_Query r) ''attribute'' \<noteq> []" and
    "status_of (fst (GetAttributeByName up createContext (Get (URL_Query r) ''attribute'') sent))
       \<noteq> StatusOK"
  shows
    "error_mapping False
       (fst (GetAttributeByName up createContext (Get (URL_Query r) ''attribute'') sent))
       (fst (DisplayDigimonsByAttribute up r sent))"
proof -
  have "service_invariant (fst (GetAttributeByName up createContext (Get (URL_Query r) ''attribute'') sent))"
    by (rule GetAttributeByName_invariant)
  with assms show ?thesis
    by (cases "GetAttributeByName up createContext (Get (URL_Query r) ''attribute'') sent")
      (clarsimp simp: DisplayDigimonsByAttribute_def Let_def error_mapping_def call_http_Error_def
         service_invariant_def status_of_def Sprintf_Erreur_service_def
         split: option.splits prod.splits)
qed

lemma DisplayDigimonsByAttribute_sent:
  assumes
    "Get (URL_Query r) ''attribute'' \<noteq> []"
  shows
    "snd (DisplayDigimonsByAttribute up r sent) =
       snd (GetAttributeByName up createContext (Get (URL_Query r) ''attribute'') sent)"
  using assms
  by (cases "GetAttributeByName up createContext (Get (URL_Query r) ''attribute'') sent")
    (auto simp: DisplayDigimonsByAttribute_def Let_def Atoi_empty call_http_Error_def
       split: option.splits prod.splits)

lemma DisplayDigimonsByLevel_error:
  assumes
    "Get (URL_Query r) ''level'' \<noteq> []" and
    "status_of (fst (GetLevelByName up createContext (Get (URL_Query r) ''level'') sent))
       \<noteq> StatusOK"
  shows
    "error_mapping False
       (fst (GetLevelByName up createContext (Get (URL_Query r) ''level'') sent))
       (fst (DisplayDigimonsByLevel up r sent))"
proof -
  have "service_invariant (fst (GetLevelByName up createContext (Get (URL_Query r) ''level'') sent))"
    by (rule GetLevelByName_invariant)
  with assms show ?thesis
    by (cases "GetLevelByName up createContext (Get (URL_Query r) ''level'') sent")
      (clarsimp simp: DisplayDigimonsByLevel_def Let_def error_mapping_def call_http_Error_def
         service_invariant_def status_of_def Sprintf_Erreur_service_def
         split: option.splits prod.splits)
qed

lemma DisplayDigimonsByLevel_sent:
  assumes
    "Get (URL_Query r) ''level'' \<noteq> []"
  shows
    "snd (DisplayDigimonsByLevel up r sent) =
       snd (GetLevelByName up createContext (Get (URL_Query r) ''level'') sent)"
  using assms
  by (cases "GetLevelByName up createContext (Get (URL_Query r) ''level'') sent")
    (auto simp: DisplayDigimonsByLevel_def Let_def Atoi_empty call_http_Error_def
       split: option.splits prod.splits)

text \<open>No handler reads through a nil pointer or calls a method of a nil error.\<close>

lemma DisplayListDigimons_no_panic:
  "fst (DisplayListDigimons up r sent) \<noteq> Inl NilDereference"
proof -
  have "service_invariant (fst (GetAllDigimons up createContext (Some DisplayListDigimons_opts) sent))"
    by (rule GetAllDigimons_invariant)
  then show ?thesis
    by (cases "GetAllDigimons up createContext (Some DisplayListDigimons_opts) sent")
      (auto simp: DisplayListDigimons_def Let_def service_invariant_def call_http_Error_def
         split: option.splits prod.splits)
qed

lemma DisplayListDigimonsWithPagination_no_panic:
  "fst (DisplayListDigimonsWithPagination up r sent) \<noteq> Inl NilDereference"
proof -
  have "service_invariant (fst (GetAllDigimons up createContext
                                  (Some (DisplayListDigimonsWithPagination_opts r)) sent))"
    by (rule GetAllDigimons_invariant)
  then show ?thesis
    by (cases "GetAllDigimons up createContext
                 (Some (DisplayListDigimonsWithPagination_opts r)) sent")
      (auto simp: DisplayListDigimonsWithPagination_def Let_def service_invariant_def call_http_Error_def
         split: option.splits prod.splits)
qed

lemma DisplaySearch_no_panic:
  "fst (DisplaySearch up r sent) \<noteq> Inl NilDereference"
proof -
  have "service_invariant (fst (GetAllDigimons up createContext
                                  (Some (DisplaySearch_opts (TrimSpace (FormValue r ''query'')))) sent))"
    by (rule GetAllDigimons_invariant)
  then show ?thesis
    by (cases "GetAllDigimons up createContext
                 (Some (DisplaySearch_opts (TrimSpace (FormValue r ''query'')))) sent")
      (auto simp: DisplaySearch_def Let_def service_invariant_def call_http_Error_def
         split: option.splits prod.splits)
qed

lemma DisplaySearchAdvanced_no_panic:
  "fst (DisplaySearchAdvanced up r sent) \<noteq> Inl NilDereference"
proof -
  have "service_invariant (fst (GetAllDigimons up createContext
                                  (Some (DisplaySearchAdvanced_opts (TrimSpace (FormValue r ''query''))
                                     (FormValue r ''exact'' = ''true'' \<or> FormValue r ''exact'' = ''on''))) sent))"
    by (rule GetAllDigimons_invariant)
  then show ?thesis
    by (cases "GetAllDigimons up createContext
                 (Some (DisplaySearchAdvanced_opts (TrimSpace (FormValue r ''query''))
                    (FormValue r ''exact'' = ''true'' \<or> FormValue r ''exact'' = ''on''))) sent")
      (auto simp: DisplaySearchAdvanced_def Let_def service_invariant_def call_http_Error_def
         split: option.splits prod.splits)
qed

lemma DisplayFilter_no_panic:
  "fst (DisplayFilter up r sent) \<noteq> Inl NilDereference"
proof -
  have "service_invariant (fst (GetAllDigimons up createContext
                                  (Some (DisplayFilter_opts (TrimSpace (FormValue r ''level''))
                                     (TrimSpace (FormValue r ''attribute'')) (FormValue r ''xantibody''))) sent))"
    by (rule GetAllDigimons_invariant)
  then show ?thesis
    by (cases "GetAllDigimons up createContext
                 (Some (DisplayFilter_opts (TrimSpace (FormValue r ''level''))
                    (TrimSpace (FormValue r ''attribute'')) (FormValue r ''xantibody''))) sent")
      (auto simp: DisplayFilter_def Let_def service_invariant_def call_http_Error_def
         split: option.splits prod.splits)
qed

lemma DisplayFilterAdvanced_no_panic:
  "fst (DisplayFilterAdvanced up r sent) \<noteq> Inl NilDereference"
proof -
  have "service_invariant (fst (GetAllDigimons up createContext (Some DisplayFilterAdvanced_opts) sent))"
    by (rule GetAllDigimons_invariant)
  then show ?thesis
    by (cases "GetAllDigimons up createContext (Some DisplayFilterAdvanced_opts) sent")
      (auto simp: DisplayFilterAdvanced_def Let_def service_invariant_def call_http_Error_def
         split: option.splits prod.splits)
qed

lemma DisplayDigimonDetails_no_panic:
  "fst (DisplayDigimonDetails up r sent) \<noteq> Inl NilDereference"
proof (cases "Atoi (Get (URL_Query r) ''id'')")
  case (Inl err)
  then show ?thesis
    by (simp add: DisplayDigimonDetails_def Let_def call_http_Error_def)
next
  case (Inr ident)
  have "service_invariant (fst (GetDigimonByID up createContext ident sent))"
    by (rule GetDigimonByID_invariant)
  with Inr show ?thesis
    by (cases "GetDigimonByID up createContext ident sent")
      (auto simp: DisplayDigimonDetails_def Let_def service_invariant_def call_http_Error_def
         split: option.splits prod.splits)
qed

lemma DisplayDigimonDetailsByName_no_panic:
  "fst (DisplayDigimonDetailsByName up r sent) \<noteq> Inl NilDereference"
proof -
  have "service_invariant (fst (GetDigimonByName up createContext (Get (URL_Query r) ''name'') sent))"
    by (rule GetDigimonByName_invariant)
  then show ?thesis
    by (cases "GetDigimonByName up createContext (Get (URL_Query r) ''name'') sent")
      (auto simp: DisplayDigimonDetailsByName_def Let_def service_invariant_def call_http_Error_def
         split: option.splits prod.splits)
qed

lemma DisplayDigimonsByAttribute_no_panic:
  "fst (DisplayDigimonsByAttribute up r sent) \<noteq> Inl NilDereference"
proof -
  have "service_invariant (fst (GetAttributeByName up createContext (Get (URL_Query r) ''attribute'') sent))"
    by (rule GetAttributeByName_invariant)
  then show ?thesis
    by (cases "GetAttributeByName up createContext (Get (URL_Query r) ''attribute'') sent")
      (auto simp: DisplayDigimonsByAttribute_def Let_def service_invariant_def call_http_Error_def
         split: option.splits prod.splits)
qed

lemma DisplayDigimonsByLevel_no_panic:
  "fst (DisplayDigimonsByLevel up r sent) \<noteq> Inl NilDereference"
proof -
  have "service_invariant (fst (GetLevelByName up createContext (Get (URL_Query r) ''level'') sent))"
    by (rule GetLevelByName_invariant)
  then show ?thesis
    by (cases "GetLevelByName up createContext (Get (URL_Query r) ''level'') sent")
      (auto simp: DisplayDigimonsByLevel_def Let_def service_invariant_def call_http_Error_def
         split: option.splits prod.splits)
qed

lemma validDigimons_loop_eq:
  "validDigimons_loop levels attributes xAntibodyStr content validDigimons =
     (if levels = [] \<and> attributes = [] \<and> xAntibodyStr = [] then validDigimons @ content
      else validDigimons)"
  by (induction content arbitrary: validDigimons) simp_all

lemma example_query_blank:
  "TrimSpace (FormValue (example_incoming Map.empty [''query'' \<mapsto> [''   '']]) ''query'') = []"
  by (simp add: example_incoming_def FormValue_def index_Values_def TrimSpace_def
      trimLeft.simps spaceWidth_def whiteSpace_def)

lemma example_query_agumon:
  "TrimSpace (FormValue (example_incoming q [''query'' \<mapsto> ['' agumon  ''], ''exact'' \<mapsto> [''on'']])
     ''query'') = ''agumon''"
  by (simp add: example_incoming_def FormValue_def index_Values_def TrimSpace_def
      trimLeft.simps spaceWidth_def whiteSpace_def)

subsection \<open>The invariant of the services\<close>

text \<open>
  C9. Every service returns a nil error exactly when it returns status 200, and a pointer
  that is not nil exactly when the error is nil. So no handler panics: the branch a handler
  enters when the status is not 200 or the error is not nil always finds an error to call
  \<open>Error()\<close> on, and the other branch always finds data behind the pointer.
\<close>

theorem services_invariant_handlers_safe:
  "service_invariant (fst (GetDigimonByID up ctx ident sent)) \<and>
   service_invariant (fst (GetDigimonByName up ctx name sent)) \<and>
   service_invariant (fst (GetAllDigimons up ctx opts sent)) \<and>
   service_invariant (fst (GetAttributeByID up ctx ident sent)) \<and>
   service_invariant (fst (GetAttributeByName up ctx name sent)) \<and>
   service_invariant (fst (GetLevelByID up ctx ident sent)) \<and>
   service_invariant (fst (GetLevelByName up ctx name sent)) \<and>
   fst (DisplayListDigimons up r sent) \<noteq> Inl NilDereference \<and>
   fst (DisplayListDigimonsWithPagination up r sent) \<noteq> Inl NilDereference \<and>
   fst (DisplaySearch up r sent) \<noteq> Inl NilDereference \<and>
   fst (DisplaySearchAdvanced up r sent) \<noteq> Inl NilDereference \<and>
   fst (DisplayFilter up r sent) \<noteq> Inl NilDereference \<and>
   fst (DisplayFilterAdvanced up r sent) \<noteq> Inl NilDereference \<and>
   fst (DisplayDigimonDetails up r sent) \<noteq> Inl NilDereference \<and>
   fst (DisplayDigimonDetailsByName up r sent) \<noteq> Inl NilDereference \<and>
   fst (DisplayDigimonsByAttribute up r sent) \<noteq> Inl NilDereference \<and>
   fst (DisplayDigimonsByLevel up r sent) \<noteq> Inl NilDereference"
  by (intro conjI GetDigimonByID_invariant GetDigimonByName_invariant GetAllDigimons_invariant
      GetAttributeByID_invariant GetAttributeByName_invariant GetLevelByID_invariant
      GetLevelByName_invariant DisplayListDigimons_no_panic
      DisplayListDigimonsWithPagination_no_panic DisplaySearch_no_panic
      DisplaySearchAdvanced_no_panic DisplayFilter_no_panic DisplayFilterAdvanced_no_panic
      DisplayDigimonDetails_no_panic DisplayDigimonDetailsByName_no_panic
      DisplayDigimonsByAttribute_no_panic DisplayDigimonsByLevel_no_panic)

theorem services_invariant_handlers_safe_witness:
  "service_invariant (fst (GetDigimonByID (example_upstream answer_404) Background 7 [])) \<and>
   service_invariant (fst (GetDigimonByName (example_upstream answer_404) Background ''agumon'' [])) \<and>
   service_invariant (fst (GetAllDigimons (example_upstream answer_404) Background None [])) \<and>
   service_invariant (fst (GetAttributeByID (example_upstream answer_404) Background 7 [])) \<and>
   service_invariant
     (fst (GetAttributeByName (example_upstream answer_404) Background ''agumon'' [])) \<and>
   service_invariant (fst (GetLevelByID (example_upstream answer_404) Background 7 [])) \<and>
   service_invariant (fst (GetLevelByName (example_upstream answer_404) Background ''agumon'' [])) \<and>
   fst (DisplayListDigimons (example_upstream answer_404) example_lookup []) \<noteq>
     Inl NilDereference \<and>
   fst (DisplayListDigimonsWithPagination (example_upstream answer_404) example_lookup []) \<noteq>
     Inl NilDereference \<and>
   fst (DisplaySearch (example_upstream answer_404) example_lookup []) \<noteq> Inl NilDereference \<and>
   fst (DisplaySearchAdvanced (example_upstream answer_404) example_lookup []) \<noteq>
     Inl NilDereference \<and>
   fst (DisplayFilter (example_upstream answer_404) example_lookup []) \<noteq> Inl NilDereference \<and>
   fst (DisplayFilterAdvanced (example_upstream answer_404) example_lookup []) \<noteq>
     Inl NilDereference \<and>
   fst (DisplayDigimonDetails (example_upstream answer_404) example_lookup []) \<noteq>
     Inl NilDereference \<and>
   fst (DisplayDigimonDetailsByName (example_upstream answer_404) example_lookup []) \<noteq>
     Inl NilDereference \<and>
   fst (DisplayDigimonsByAttribute (example_upstream answer_404) example_lookup []) \<noteq>
     Inl NilDereference \<and>
   fst (DisplayDigimonsByLevel (example_upstream answer_404) example_lookup []) \<noteq>
     Inl NilDereference"
  by (rule services_invariant_handlers_safe)

subsection \<open>The error mapping\<close>

text \<open>
  C5, as the code has it. A handler passes the status the service reported to \<open>http.Error\<close>
  as it is, and \<open>WriteHeader\<close> refuses a code below 100 or above 999. The HTTP client
  reads the status line \<open>099\<close> as the status 99, the service reports 99, and the handler
  panics: no response with that status is written.
\<close>

theorem handlers_status_099:
  "status_of (fst (GetAllDigimons (example_upstream answer_099) createContext
                     (Some DisplayListDigimons_opts) [])) = 99 \<and>
   fst (DisplayListDigimons (example_upstream answer_099) example_lookup []) =
     Inl InvalidWriteHeaderCode"
proof -
  have "fst (GetAllDigimons (example_upstream answer_099) createContext
      (Some DisplayListDigimons_opts) []) = (None, 99, Some ''code HTTP inattendu: 99'')"
    by (simp add: GetAllDigimons_def NewRequestWithContext_def Do_def example_upstream_def
        answer_099_def Sprintf_d_def natToDec.simps digitChar_def)
  then show ?thesis
    by (cases "GetAllDigimons (example_upstream answer_099) createContext
          (Some DisplayListDigimons_opts) []")
      (simp add: status_of_def DisplayListDigimons_def call_http_Error_def)
qed

text \<open>
  C5, amended. In every handler, when the service the handler calls reports a status other
  than 200 that can be written as the status of a response (100 to 999), the handler
  answers with \<open>http.Error\<close> and that same status code. The two lookups (by id and by name)
  answer a 404 with the message "Digimon non trouv\<open>e\<close>"; every other such status there, and
  every such status in the other handlers, is answered with the message
  "Erreur service - code: ..., message: ..." that embeds the status code and the text of
  the error of the service. For a reported status below 100 or above 999 the handler
  panics in \<open>WriteHeader\<close> and writes no response. The hypotheses before the status are the
  checks a handler makes before it calls its service.
\<close>

theorem handlers_error_mapping:
  "(status_of (fst (GetAllDigimons up createContext (Some DisplayListDigimons_opts) sent))
      \<noteq> StatusOK \<longrightarrow>
      error_mapping False
        (fst (GetAllDigimons up createContext (Some DisplayListDigimons_opts) sent))
        (fst (DisplayListDigimons up r sent))) \<and>
   (status_of (fst (GetAllDigimons up createContext
                      (Some (DisplayListDigimonsWithPagination_opts r)) sent))
      \<noteq> StatusOK \<longrightarrow>
      error_mapping False
        (fst (GetAllDigimons up createContext
                (Some (DisplayListDigimonsWithPagination_opts r)) sent))
        (fst (DisplayListDigimonsWithPagination up r sent))) \<and>
   (TrimSpace (FormValue r ''query'') \<noteq> [] \<longrightarrow>
    status_of (fst (GetAllDigimons up createContext
                      (Some (DisplaySearch_opts (TrimSpace (FormValue r ''query'')))) sent))
      \<noteq> StatusOK \<longrightarrow>
      error_mapping False
        (fst (GetAllDigimons up createContext
                (Some (DisplaySearch_opts (TrimSpace (FormValue r ''query'')))) sent))
        (fst (DisplaySearch up r sent))) \<and>
   (TrimSpace (FormValue r ''query'') \<noteq> [] \<longrightarrow>
    status_of (fst (GetAllDigimons up createContext
                      (Some (DisplaySearchAdvanced_opts (TrimSpace (FormValue r ''query''))
                         (FormValue r ''exact'' = ''true'' \<or> FormValue r ''exact'' = ''on''))) sent))
      \<noteq> StatusOK \<longrightarrow>
      error_mapping False
        (fst (GetAllDigimons up createContext
                (Some (DisplaySearchAdvanced_opts (TrimSpace (FormValue r ''query''))
                   (FormValue r ''exact'' = ''true'' \<or> FormValue r ''exact'' = ''on''))) sent))
        (fst (DisplaySearchAdvanced up r sent))) \<and>
   (ParseForm_error r = None \<longrightarrow>
    status_of (fst (GetAllDigimons up createContext
                      (Some (DisplayFilter_opts (TrimSpace (FormValue r ''level''))
                         (TrimSpace (FormValue r ''attribute'')) (FormValue r ''xantibody''))) sent))
      \<noteq> StatusOK \<longrightarrow>
      error_mapping False
        (fst (GetAllDigimons up createContext
                (Some (DisplayFilter_opts (TrimSpace (FormValue r ''level''))
                   (TrimSpace (FormValue r ''attribute'')) (FormValue r ''xantibody''))) sent))
        (fst (DisplayFilter up r sent))) \<and>
   (ParseForm_error r = None \<longrightarrow>
    status_of (fst (GetAllDigimons up createContext (Some DisplayFilterAdvanced_opts) sent))
      \<noteq> StatusOK \<longrightarrow>
      error_mapping False
        (fst (GetAllDigimons up createContext (Some DisplayFilterAdvanced_opts) sent))
        (fst (DisplayFilterAdvanced up r sent))) \<and>
   (Atoi (Get (URL_Query r) ''id'') = Inr ident \<longrightarrow>
    status_of (fst (GetDigimonByID up createContext ident sent))
      \<noteq> StatusOK \<longrightarrow>
      error_mapping True
        (fst (GetDigimonByID up createContext ident sent))
        (fst (DisplayDigimonDetails up r sent))) \<and>
   (Get (URL_Query r) ''name'' \<noteq> [] \<longrightarrow>
    status_of (fst (GetDigimonByName up createContext (Get (URL_Query r) ''name'') sent))
      \<noteq> StatusOK \<longrightarrow>
      error_mapping True
        (fst (GetDigimonByName up createContext (Get (URL_Query r) ''name'') sent))
        (fst (DisplayDigimonDetailsByName up r sent))) \<and>
   (Get (URL_Query r) ''attribute'' \<noteq> [] \<longrightarrow>
    status_of (fst (GetAttributeByName up createContext (Get (URL_Query r) ''attribute'') sent))
      \<noteq> StatusOK \<longrightarrow>
      error_mapping False
        (fst (GetAttributeByName up createContext (Get (URL_Query r) ''attribute'') sent))
        (fst (DisplayDigimonsByAttribute up r sent))) \<and>
   (Get (URL_Query r) ''level'' \<noteq> [] \<longrightarrow>
    status_of (fst (GetLevelByName up createContext (Get (URL_Query r) ''level'') sent))
      \<noteq> StatusOK \<longrightarrow>
      error_mapping False
        (fst (GetLevelByName up createContext (Get (URL_Query r) ''level'') sent))
        (fst (DisplayDigimonsByLevel up r sent)))"
  by (intro conjI impI;
      rule
      DisplayListDigimons_error DisplayListDigimonsWithPagination_error DisplaySearch_error
      DisplaySearchAdvanced_error DisplayFilter_error DisplayFilterAdvanced_error
      DisplayDigimonDetails_error DisplayDigimonDetailsByName_error
      DisplayDigimonsByAttribute_error DisplayDigimonsByLevel_error;
      assumption)

theorem handlers_error_mapping_witness:
  "fst (DisplayListDigimons (example_upstream answer_503) example_lookup []) =
     Inr (http_Error
       (''Erreur service - code: 503'' @ [CHR 0x0A] @ ''message: code HTTP inattendu: 503'') 503) \<and>
   fst (DisplayListDigimonsWithPagination (example_upstream answer_503) example_lookup []) =
     Inr (http_Error
       (''Erreur service - code: 503'' @ [CHR 0x0A] @ ''message: code HTTP inattendu: 503'') 503) \<and>
   fst (DisplaySearch (example_upstream answer_404) example_lookup []) =
     Inr (http_Error
       (''Erreur service - code: 404'' @ [CHR 0x0A] @ ''message: code HTTP inattendu: 404'') 404) \<and>
   fst (DisplaySearchAdvanced (example_upstream answer_404) example_lookup []) =
     Inr (http_Error
       (''Erreur service - code: 404'' @ [CHR 0x0A] @ ''message: code HTTP inattendu: 404'') 404) \<and>
   fst (DisplayFilter (example_upstream answer_timeout) example_lookup []) =
     Inr (http_Error
       (''Erreur service - code: 500'' @ [CHR 0x0A] @ ''message: erreur requ''
          @ [CHR 0xC3, CHR 0xAA] @ ''te HTTP: context deadline exceeded'') 500) \<and>
   fst (DisplayFilterAdvanced (example_upstream answer_503) example_lookup []) =
     Inr (http_Error
       (''Erreur service - code: 503'' @ [CHR 0x0A] @ ''message: code HTTP inattendu: 503'') 503) \<and>
   fst (DisplayDigimonDetails (example_upstream answer_404) example_lookup []) =
     Inr (http_Error (''Digimon non trouv'' @ [CHR 0xC3, CHR 0xA9]) 404) \<and>
   fst (DisplayDigimonDetailsByName (example_upstream answer_503) example_lookup []) =
     Inr (http_Error
       (''Erreur service - code: 503'' @ [CHR 0x0A] @ ''message: code HTTP inattendu: 503'') 503) \<and>
   fst (DisplayDigimonsByAttribute (example_upstream answer_404) example_lookup []) =
     Inr (http_Error
       (''Erreur service - code: 404'' @ [CHR 0x0A] @ ''message: code HTTP inattendu: 404'') 404) \<and>
   fst (DisplayDigimonsByLevel (example_upstream answer_503) example_lookup []) =
     Inr (http_Error
       (''Erreur service - code: 503'' @ [CHR 0x0A] @ ''message: code HTTP inattendu: 503'') 503) \<and>
   fst (DisplayFilterAdvanced (example_upstream answer_099) example_lookup []) =
     Inl InvalidWriteHeaderCode"
proof -
  have query: "TrimSpace (FormValue example_lookup ''query'') = ''agumon''"
    by (simp add: example_lookup_def example_incoming_def FormValue_def index_Values_def
        TrimSpace_def trimLeft.simps spaceWidth_def whiteSpace_def)
  have ident: "Atoi (Get (URL_Query example_lookup) ''id'') = Inr 7"
    by (simp add: example_lookup_def example_incoming_def Get_def index_Values_def Atoi_def
        isDigit_def)
  have fields:
    "Get (URL_Query example_lookup) ''name'' = ''agumon''"
    "Get (URL_Query example_lookup) ''attribute'' = ''Vaccine''"
    "Get (URL_Query example_lookup) ''level'' = ''Rookie''"
    "ParseForm_error example_lookup = None"
    by (simp_all add: example_lookup_def example_incoming_def Get_def index_Values_def)
  have list:
    "fst (GetAllDigimons (example_upstream answer_503) ctx opts sent) =
       (None, 503, Some ''code HTTP inattendu: 503'')"
    "fst (GetAllDigimons (example_upstream answer_404) ctx opts sent) =
       (None, 404, Some ''code HTTP inattendu: 404'')"
    "fst (GetAllDigimons (example_upstream answer_timeout) ctx opts sent) =
       (None, 500,
        Some (''erreur requ'' @ [CHR 0xC3, CHR 0xAA] @ ''te HTTP: context deadline exceeded''))"
    "fst (GetAllDigimons (example_upstream answer_099) ctx opts sent) =
       (None, 99, Some ''code HTTP inattendu: 99'')"
    for ctx opts sent
    by (simp_all add: GetAllDigimons_def NewRequestWithContext_def Do_def example_upstream_def
        answer_503_def answer_404_def answer_timeout_def answer_099_def Sprintf_d_def
        natToDec.simps digitChar_def)
  have one:
    "fst (fetchDigimon (example_upstream answer_503) ctx url sent) =
       (None, 503, Some ''code HTTP inattendu: 503'')"
    "fst (fetchDigimon (example_upstream answer_404) ctx url sent) =
       (None, 404, Some ''code HTTP inattendu: 404'')"
    "fst (fetchAttribute (example_upstream answer_404) ctx url sent) =
       (None, 404, Some ''code HTTP inattendu: 404'')"
    "fst (fetchLevel (example_upstream answer_503) ctx url sent) =
       (None, 503, Some ''code HTTP inattendu: 503'')"
    for ctx url sent
    by (simp_all add: fetchDigimon_def fetchAttribute_def fetchLevel_def
        NewRequestWithContext_def Do_def example_upstream_def answer_503_def answer_404_def
        Sprintf_d_def natToDec.simps digitChar_def)
  have code: "Sprintf_d 503 = ''503''" "Sprintf_d 404 = ''404''" "Sprintf_d 500 = ''500''"
    by (simp_all add: Sprintf_d_def natToDec.simps digitChar_def)
  show ?thesis
    using
      handlers_error_mapping [of "example_upstream answer_503" "[]" example_lookup 7]
      handlers_error_mapping [of "example_upstream answer_404" "[]" example_lookup 7]
      handlers_error_mapping [of "example_upstream answer_timeout" "[]" example_lookup 7]
      handlers_error_mapping [of "example_upstream answer_099" "[]" example_lookup 7]
    by (simp add: query ident fields list one code status_of_def error_mapping_def
        GetDigimonByID_def GetDigimonByName_def GetAttributeByName_def GetLevelByName_def)
qed

subsection \<open>Search\<close>

text \<open>
  C3. \<open>DisplaySearch\<close> trims the white space around the form value \<open>query\<close>: the value it
  works with is a part of the form value that neither starts nor ends with white space.
  When nothing is left it answers with a redirect to \<open>/digimons\<close>, status 303, and sends
  nothing upstream. Otherwise the one request it sends upstream is the list request whose
  query is exactly \<open>name\<close>, the trimmed value, and \<open>pageSize\<close>, 50 (given that the standard
  library builds a request for the URL of the list, a constant of the program).
\<close>

theorem DisplaySearch_query:
  "\<not> starts_with_space (TrimSpace (FormValue r ''query'')) \<and>
   \<not> ends_with_space (TrimSpace (FormValue r ''query'')) \<and>
   (\<exists>a b. FormValue r ''query'' = a @ TrimSpace (FormValue r ''query'') @ b) \<and>
   (TrimSpace (FormValue r ''query'') = [] \<longrightarrow>
      DisplaySearch up r sent = (Inr (http_Redirect ''/digimons'' 303), sent)) \<and>
   (TrimSpace (FormValue r ''query'') \<noteq> [] \<longrightarrow>
    NewRequest_error up (digimonAPIBaseURL @ ''/digimon'') = None \<longrightarrow>
      snd (DisplaySearch up r sent) =
        sent @ [\<lparr>Ctx = createContext, Method = ''GET'', URL = digimonAPIBaseURL @ ''/digimon'',
                 Query = [''name'' \<mapsto> [TrimSpace (FormValue r ''query'')],
                          ''pageSize'' \<mapsto> [''50'']]\<rparr>])"
proof -
  let ?q = "TrimSpace (FormValue r ''query'')"
  have empty: "DisplaySearch up r sent = (Inr (http_Redirect ''/digimons'' 303), sent)"
    if "?q = []"
    using that by (simp add: DisplaySearch_def)
  have "addOptions (DisplaySearch_opts ?q) Map.empty =
      [''name'' \<mapsto> [?q], ''pageSize'' \<mapsto> [''50'']]" if "?q \<noteq> []"
    using that
    by (simp add: addOptions_def DisplaySearch_opts_def zeroOptions_def Add_def index_Values_def
        Sprintf_d_examples)
  then have call: "snd (DisplaySearch up r sent) =
      sent @ [\<lparr>Ctx = createContext, Method = ''GET'', URL = digimonAPIBaseURL @ ''/digimon'',
               Query = [''name'' \<mapsto> [?q], ''pageSize'' \<mapsto> [''50'']]\<rparr>]"
    if q: "?q \<noteq> []" and ok: "NewRequest_error up (digimonAPIBaseURL @ ''/digimon'') = None"
    using q DisplaySearch_sent [OF q, of up sent]
      GetAllDigimons_sent [OF ok, of createContext "Some (DisplaySearch_opts ?q)" sent]
    by (simp add: withOptions_def request_of_def)
  from TrimSpace_trimmed [of "FormValue r ''query''"] empty call show ?thesis
    by (intro conjI impI) blast+
qed

theorem DisplaySearch_query_witness:
  "DisplaySearch (example_upstream answer_200)
     (example_incoming Map.empty [''query'' \<mapsto> [''   '']]) [] =
     (Inr (http_Redirect ''/digimons'' 303), []) \<and>
   snd (DisplaySearch (example_upstream answer_200)
     (example_incoming Map.empty [''query'' \<mapsto> ['' agumon  ''], ''exact'' \<mapsto> [''on'']]) []) =
     [\<lparr>Ctx = createContext, Method = ''GET'', URL = digimonAPIBaseURL @ ''/digimon'',
       Query = [''name'' \<mapsto> [''agumon''], ''pageSize'' \<mapsto> [''50'']]\<rparr>]"
  using
    DisplaySearch_query [of "example_incoming Map.empty [''query'' \<mapsto> [''   '']]"
      "example_upstream answer_200" "[]",
      THEN conjunct2, THEN conjunct2, THEN conjunct2, THEN conjunct1]
    DisplaySearch_query
      [of "example_incoming Map.empty [''query'' \<mapsto> ['' agumon  ''], ''exact'' \<mapsto> [''on'']]"
        "example_upstream answer_200" "[]",
        THEN conjunct2, THEN conjunct2, THEN conjunct2, THEN conjunct2]
  by (simp add: example_query_blank example_query_agumon example_upstream_def)

text \<open>
  C8. Whatever the request, the only call \<open>DisplaySearchAdvanced\<close> makes to the list (none
  when the trimmed query is empty) passes options whose \<open>Exact\<close> is true exactly when the
  raw form value \<open>exact\<close> is "true" or is "on": what the handler sends is what
  \<open>GetAllDigimons\<close> sends for these options. So the request carries \<open>exact=true\<close> in these two
  cases, and no \<open>exact\<close> for any other value, the empty one included.
\<close>

theorem DisplaySearchAdvanced_exact:
  "snd (DisplaySearchAdvanced up r sent) =
     (if TrimSpace (FormValue r ''query'') = [] then sent
      else snd (GetAllDigimons up createContext
                  (Some \<lparr>Name = TrimSpace (FormValue r ''query''),
                          Exact = (FormValue r ''exact'' = ''true'' \<or>
                                   FormValue r ''exact'' = ''on''),
                          Attribute = [], XAntibody = None, Level = [], Page = 0,
                          PageSize = 50\<rparr>) sent)) \<and>
   (TrimSpace (FormValue r ''query'') \<noteq> [] \<longrightarrow>
    NewRequest_error up (digimonAPIBaseURL @ ''/digimon'') = None \<longrightarrow>
      (\<exists>req. snd (DisplaySearchAdvanced up r sent) = sent @ [req] \<and>
             Query req ''exact'' =
               (if FormValue r ''exact'' = ''true'' \<or> FormValue r ''exact'' = ''on''
                then Some [''true''] else None)))"
proof -
  let ?q = "TrimSpace (FormValue r ''query'')"
  let ?e = "FormValue r ''exact'' = ''true'' \<or> FormValue r ''exact'' = ''on''"
  let ?opts = "\<lparr>Name = ?q, Exact = ?e, Attribute = [], XAntibody = None, Level = [], Page = 0,
      PageSize = 50\<rparr>"
  let ?req = "\<lparr>Ctx = createContext, Method = ''GET'', URL = digimonAPIBaseURL @ ''/digimon'',
      Query = addOptions ?opts Map.empty\<rparr>"
  have opts: "DisplaySearchAdvanced_opts ?q ?e = ?opts"
    by (simp add: DisplaySearchAdvanced_opts_def zeroOptions_def)
  have none: "snd (DisplaySearchAdvanced up r sent) = sent" if "?q = []"
    using that by (simp add: DisplaySearchAdvanced_def)
  have call: "snd (DisplaySearchAdvanced up r sent) =
      snd (GetAllDigimons up createContext (Some ?opts) sent)" if "?q \<noteq> []"
    using DisplaySearchAdvanced_sent [OF that, of up sent] by (simp only: opts)
  have wire: "\<exists>req. snd (DisplaySearchAdvanced up r sent) = sent @ [req] \<and>
      Query req ''exact'' = (if ?e then Some [''true''] else None)"
    if q: "?q \<noteq> []" and ok: "NewRequest_error up (digimonAPIBaseURL @ ''/digimon'') = None"
  proof -
    have sent: "snd (GetAllDigimons up createContext (Some ?opts) sent) = sent @ [?req]"
      using GetAllDigimons_sent [OF ok, of createContext "Some ?opts" sent]
      by (simp add: withOptions_def request_of_def)
    have exact: "Query ?req ''exact'' = (if ?e then Some [''true''] else None)"
      by (simp add: addOptions_apply)
    from call [OF q] sent exact show ?thesis
      by (intro conjI exI [of _ ?req]) simp_all
  qed
  have total: "snd (DisplaySearchAdvanced up r sent) =
      (if ?q = [] then sent else snd (GetAllDigimons up createContext (Some ?opts) sent))"
    using none call by (cases "?q = []") simp_all
  from total wire show ?thesis
    by (intro conjI impI)
qed

theorem DisplaySearchAdvanced_exact_witness:
  "(\<exists>req. snd (DisplaySearchAdvanced (example_upstream answer_200)
                (example_incoming Map.empty
                   [''query'' \<mapsto> ['' agumon  ''], ''exact'' \<mapsto> [''on'']]) []) = [req] \<and>
          Query req ''exact'' = Some [''true'']) \<and>
   snd (DisplaySearchAdvanced (example_upstream answer_200)
          (example_incoming Map.empty [''query'' \<mapsto> [''   '']]) []) = []"
proof -
  let ?r = "example_incoming Map.empty [''query'' \<mapsto> ['' agumon  ''], ''exact'' \<mapsto> [''on'']]"
  have query: "TrimSpace (FormValue ?r ''query'') \<noteq> []"
    by (simp add: example_query_agumon)
  have ok: "NewRequest_error (example_upstream answer_200) (digimonAPIBaseURL @ ''/digimon'') = None"
    by (simp add: example_upstream_def)
  have exact: "FormValue ?r ''exact'' = ''on''"
    by (simp add: example_incoming_def FormValue_def index_Values_def)
  from DisplaySearchAdvanced_exact [of "example_upstream answer_200" ?r "[]",
      THEN conjunct2, rule_format, OF query ok]
  have a: "\<exists>req. snd (DisplaySearchAdvanced (example_upstream answer_200) ?r []) = [req] \<and>
      Query req ''exact'' = Some [''true'']"
    by (simp add: exact)
  from DisplaySearchAdvanced_exact [of "example_upstream answer_200"
      "example_incoming Map.empty [''query'' \<mapsto> [''   '']]" "[]", THEN conjunct1]
  have b: "snd (DisplaySearchAdvanced (example_upstream answer_200)
      (example_incoming Map.empty [''query'' \<mapsto> [''   '']]) []) = []"
    by (simp add: example_query_blank)
  from a b show ?thesis
    by (intro conjI)
qed

subsection \<open>Lists\<close>

text \<open>
  C7. The paginated list calls the list service with page size 20 and with the page number
  read from the \<open>page\<close> parameter of the URL: the number \<open>strconv.Atoi\<close> reads there when it
  is above 0, and 0, with no error, when the parameter is absent, is not a numeral (or does
  not fit an \<open>int\<close>), or is not above 0. On the wire the request carries \<open>pageSize=20\<close>, and
  \<open>page\<close> only when it is above 0. The full list always calls with page size 100 and sends
  \<open>pageSize=100\<close> alone. The hypothesis says that the standard library builds a request for
  the URL of the list, a constant of the program.
\<close>

theorem listing_page_sizes:
  assumes "NewRequest_error up (digimonAPIBaseURL @ ''/digimon'') = None"
  shows
    "snd (DisplayListDigimons up r sent) =
       snd (GetAllDigimons up createContext
              (Some \<lparr>Name = [], Exact = False, Attribute = [], XAntibody = None, Level = [],
                      Page = 0, PageSize = 100\<rparr>) sent) \<and>
     snd (DisplayListDigimons up r sent) =
       sent @ [\<lparr>Ctx = createContext, Method = ''GET'', URL = digimonAPIBaseURL @ ''/digimon'',
                Query = [''pageSize'' \<mapsto> [''100'']]\<rparr>] \<and>
     snd (DisplayListDigimonsWithPagination up r sent) =
       snd (GetAllDigimons up createContext
              (Some \<lparr>Name = [], Exact = False, Attribute = [], XAntibody = None, Level = [],
                      Page = (case Atoi (Get (URL_Query r) ''page'') of
                                Inr p \<Rightarrow> if 0 < p then p else 0
                              | Inl e \<Rightarrow> 0),
                      PageSize = 20\<rparr>) sent) \<and>
     snd (DisplayListDigimonsWithPagination up r sent) =
       sent @ [\<lparr>Ctx = createContext, Method = ''GET'', URL = digimonAPIBaseURL @ ''/digimon'',
                Query = (case Atoi (Get (URL_Query r) ''page'') of
                           Inr p \<Rightarrow>
                             if 0 < p then [''page'' \<mapsto> [Sprintf_d p], ''pageSize'' \<mapsto> [''20'']]
                             else [''pageSize'' \<mapsto> [''20'']]
                         | Inl e \<Rightarrow> [''pageSize'' \<mapsto> [''20'']])\<rparr>] \<and>
     (\<not> numeral_text (Get (URL_Query r) ''page'') \<longrightarrow>
        isl (Atoi (Get (URL_Query r) ''page'')))"
proof -
  let ?page = "case Atoi (Get (URL_Query r) ''page'') of
      Inr p \<Rightarrow> if 0 < p then p else 0 | Inl e \<Rightarrow> 0"
  let ?full = "\<lparr>Name = [], Exact = False, Attribute = [], XAntibody = None, Level = [],
      Page = 0, PageSize = 100\<rparr>"
  let ?paged = "\<lparr>Name = [], Exact = False, Attribute = [], XAntibody = None, Level = [],
      Page = ?page, PageSize = 20\<rparr>"
  have full: "DisplayListDigimons_opts = ?full"
    by (simp add: DisplayListDigimons_opts_def zeroOptions_def)
  have page: "DisplayListDigimonsWithPagination_page r = ?page"
    by (cases "Get (URL_Query r) ''page'' = []")
      (simp_all add: DisplayListDigimonsWithPagination_page_def Let_def Atoi_empty)
  have paged: "DisplayListDigimonsWithPagination_opts r = ?paged"
    by (simp add: DisplayListDigimonsWithPagination_opts_def zeroOptions_def page)
  have a: "snd (DisplayListDigimons up r sent) =
      snd (GetAllDigimons up createContext (Some ?full) sent)"
    using DisplayListDigimons_sent [of up r sent] by (simp only: full)
  have "addOptions ?full Map.empty = [''pageSize'' \<mapsto> [''100'']]"
    by (simp add: addOptions_page Sprintf_d_examples)
  then have b: "snd (DisplayListDigimons up r sent) =
      sent @ [\<lparr>Ctx = createContext, Method = ''GET'', URL = digimonAPIBaseURL @ ''/digimon'',
               Query = [''pageSize'' \<mapsto> [''100'']]\<rparr>]"
    using a GetAllDigimons_sent [OF assms, of createContext "Some ?full" sent]
    by (simp add: withOptions_def request_of_def)
  have c: "snd (DisplayListDigimonsWithPagination up r sent) =
      snd (GetAllDigimons up createContext (Some ?paged) sent)"
    using DisplayListDigimonsWithPagination_sent [of up r sent] by (simp only: paged)
  have "addOptions ?paged Map.empty =
      (case Atoi (Get (URL_Query r) ''page'') of
         Inr p \<Rightarrow>
           if 0 < p then [''page'' \<mapsto> [Sprintf_d p], ''pageSize'' \<mapsto> [''20'']]
           else [''pageSize'' \<mapsto> [''20'']]
       | Inl e \<Rightarrow> [''pageSize'' \<mapsto> [''20'']])"
    by (simp add: addOptions_page Sprintf_d_examples split: sum.splits)
  then have d: "snd (DisplayListDigimonsWithPagination up r sent) =
      sent @ [\<lparr>Ctx = createContext, Method = ''GET'', URL = digimonAPIBaseURL @ ''/digimon'',
               Query = (case Atoi (Get (URL_Query r) ''page'') of
                          Inr p \<Rightarrow>
                            if 0 < p then [''page'' \<mapsto> [Sprintf_d p], ''pageSize'' \<mapsto> [''20'']]
                            else [''pageSize'' \<mapsto> [''20'']]
                        | Inl e \<Rightarrow> [''pageSize'' \<mapsto> [''20'']])\<rparr>]"
    using c GetAllDigimons_sent [OF assms, of createContext "Some ?paged" sent]
    by (simp add: withOptions_def request_of_def)
  have e: "\<not> numeral_text (Get (URL_Query r) ''page'') \<longrightarrow>
      isl (Atoi (Get (URL_Query r) ''page''))"
    by (simp add: Atoi_not_numeral)
  from a b c d e show ?thesis
    by (intro conjI)
qed

theorem listing_page_sizes_witness:
  "snd (DisplayListDigimons (example_upstream answer_200) (example_incoming Map.empty Map.empty) [])
     = [\<lparr>Ctx = createContext, Method = ''GET'', URL = digimonAPIBaseURL @ ''/digimon'',
          Query = [''pageSize'' \<mapsto> [''100'']]\<rparr>] \<and>
   snd (DisplayListDigimonsWithPagination (example_upstream answer_200)
          (example_incoming [''page'' \<mapsto> [''3'']] Map.empty) [])
     = [\<lparr>Ctx = createContext, Method = ''GET'', URL = digimonAPIBaseURL @ ''/digimon'',
          Query = [''page'' \<mapsto> [''3''], ''pageSize'' \<mapsto> [''20'']]\<rparr>] \<and>
   snd (DisplayListDigimonsWithPagination (example_upstream answer_200)
          (example_incoming [''page'' \<mapsto> [''-2'']] Map.empty) [])
     = [\<lparr>Ctx = createContext, Method = ''GET'', URL = digimonAPIBaseURL @ ''/digimon'',
          Query = [''pageSize'' \<mapsto> [''20'']]\<rparr>] \<and>
   snd (DisplayListDigimonsWithPagination (example_upstream answer_200)
          (example_incoming [''page'' \<mapsto> [''abc'']] Map.empty) [])
     = [\<lparr>Ctx = createContext, Method = ''GET'', URL = digimonAPIBaseURL @ ''/digimon'',
          Query = [''pageSize'' \<mapsto> [''20'']]\<rparr>] \<and>
   snd (DisplayListDigimonsWithPagination (example_upstream answer_200)
          (example_incoming Map.empty Map.empty) [])
     = [\<lparr>Ctx = createContext, Method = ''GET'', URL = digimonAPIBaseURL @ ''/digimon'',
          Query = [''pageSize'' \<mapsto> [''20'']]\<rparr>]"
proof -
  have ok: "NewRequest_error (example_upstream answer_200) (digimonAPIBaseURL @ ''/digimon'') = None"
    by (simp add: example_upstream_def)
  have pages:
    "Atoi (Get (URL_Query (example_incoming [''page'' \<mapsto> [''3'']] Map.empty)) ''page'') = Inr 3"
    "Atoi (Get (URL_Query (example_incoming [''page'' \<mapsto> [''-2'']] Map.empty)) ''page'') = Inr (- 2)"
    "Atoi (Get (URL_Query (example_incoming [''page'' \<mapsto> [''abc'']] Map.empty)) ''page'') =
       Inl ErrSyntax"
    "Atoi (Get (URL_Query (example_incoming Map.empty Map.empty)) ''page'') = Inl ErrSyntax"
    by (simp_all add: example_incoming_def Get_def index_Values_def Atoi_def isDigit_def
       )
  have three: "Sprintf_d 3 = ''3''"
    by (simp add: Sprintf_d_def natToDec.simps digitChar_def)
  note t = listing_page_sizes [OF ok, of _ "[]"]
  show ?thesis
    using
      t [of "example_incoming Map.empty Map.empty", THEN conjunct2, THEN conjunct1]
      t [of "example_incoming [''page'' \<mapsto> [''3'']] Map.empty",
        THEN conjunct2, THEN conjunct2, THEN conjunct2, THEN conjunct1]
      t [of "example_incoming [''page'' \<mapsto> [''-2'']] Map.empty",
        THEN conjunct2, THEN conjunct2, THEN conjunct2, THEN conjunct1]
      t [of "example_incoming [''page'' \<mapsto> [''abc'']] Map.empty",
        THEN conjunct2, THEN conjunct2, THEN conjunct2, THEN conjunct1]
      t [of "example_incoming Map.empty Map.empty",
        THEN conjunct2, THEN conjunct2, THEN conjunct2, THEN conjunct1]
    by (simp add: pages three)
qed

subsection \<open>The advanced filter\<close>

text \<open>
  C2, as the code has it. Not every request to the advanced filter leads to a fetch: the
  handler parses the form first, and a request whose form does not parse is answered 400
  with nothing sent upstream.
\<close>

theorem DisplayFilterAdvanced_unparsed_form:
  "DisplayFilterAdvanced (example_upstream answer_200)
     \<lparr>URL_Query = Map.empty,
      ParseForm_error = Some ''invalid semicolon separator in query'',
      Form = Map.empty\<rparr> [] =
     (Inr (http_Error ''Erreur parsing formulaire'' 400), [])"
  by (simp add: DisplayFilterAdvanced_def call_http_Error_def)

text \<open>
  C2, amended. A request to the advanced filter whose form does not parse is answered 400
  with no fetch. For every other request, \<open>DisplayFilterAdvanced\<close> fetches the list with page
  size 500 (what it sends is what \<open>GetAllDigimons\<close> sends for these options: the one
  parameter \<open>pageSize=500\<close>). When the fetch succeeds, the list it renders under \<open>Digimons\<close>
  is the whole fetched list when the form holds no \<open>levels\<close>, no \<open>attributes\<close> and no
  \<open>xantibody\<close> (its first value is absent or empty), and the empty list as soon as one of
  them is there; \<open>Total\<close> is its length. The level and attribute criteria are never applied.
\<close>

theorem DisplayFilterAdvanced_filter:
  "(ParseForm_error r \<noteq> None \<longrightarrow>
      DisplayFilterAdvanced up r sent =
        (Inr (http_Error ''Erreur parsing formulaire'' 400), sent)) \<and>
   (ParseForm_error r = None \<longrightarrow>
      snd (DisplayFilterAdvanced up r sent) =
        snd (GetAllDigimons up createContext
               (Some \<lparr>Name = [], Exact = False, Attribute = [], XAntibody = None, Level = [],
                       Page = 0, PageSize = 500\<rparr>) sent)) \<and>
   (ParseForm_error r = None \<longrightarrow>
    NewRequest_error up (digimonAPIBaseURL @ ''/digimon'') = None \<longrightarrow>
      snd (DisplayFilterAdvanced up r sent) =
        sent @ [\<lparr>Ctx = createContext, Method = ''GET'',
                 URL = digimonAPIBaseURL @ ''/digimon'',
                 Query = [''pageSize'' \<mapsto> [''500'']]\<rparr>]) \<and>
   (ParseForm_error r = None \<longrightarrow>
    GetAllDigimons up createContext
      (Some \<lparr>Name = [], Exact = False, Attribute = [], XAntibody = None, Level = [],
              Page = 0, PageSize = 500\<rparr>) sent = ((Some d, StatusOK, None), sent') \<longrightarrow>
      (\<exists>m. DisplayFilterAdvanced up r sent =
              (Inr (helper_RenderTemplate ''filter_digimons_advanced'' (MapData m)), sent') \<and>
            m ''Digimons'' =
              Some (SummariesV
                (if index_Values (Form r) ''levels'' = [] \<and>
                    index_Values (Form r) ''attributes'' = [] \<and>
                    FormValue r ''xantibody'' = []
                 then Content d else [])) \<and>
            m ''Total'' =
              Some (IntV
                (if index_Values (Form r) ''levels'' = [] \<and>
                    index_Values (Form r) ''attributes'' = [] \<and>
                    FormValue r ''xantibody'' = []
                 then int (length (Content d)) else 0))))"
proof -
  let ?opts = "\<lparr>Name = [], Exact = False, Attribute = [], XAntibody = None, Level = [],
      Page = 0, PageSize = 500\<rparr>"
  let ?none = "index_Values (Form r) ''levels'' = [] \<and>
      index_Values (Form r) ''attributes'' = [] \<and> FormValue r ''xantibody'' = []"
  have opts: "DisplayFilterAdvanced_opts = ?opts"
    by (simp add: DisplayFilterAdvanced_opts_def zeroOptions_def)
  have refused: "DisplayFilterAdvanced up r sent =
      (Inr (http_Error ''Erreur parsing formulaire'' 400), sent)"
    if "ParseForm_error r \<noteq> None"
    using that
    by (cases "ParseForm_error r") (simp_all add: DisplayFilterAdvanced_def call_http_Error_def)
  have a: "snd (DisplayFilterAdvanced up r sent) =
      snd (GetAllDigimons up createContext (Some ?opts) sent)"
    if parsed: "ParseForm_error r = None"
    using DisplayFilterAdvanced_sent [OF parsed, of up sent] by (simp only: opts)
  have q: "addOptions ?opts Map.empty = [''pageSize'' \<mapsto> [''500'']]"
    by (simp add: addOptions_page Sprintf_d_examples)
  have b: "snd (DisplayFilterAdvanced up r sent) =
      sent @ [\<lparr>Ctx = createContext, Method = ''GET'', URL = digimonAPIBaseURL @ ''/digimon'',
               Query = [''pageSize'' \<mapsto> [''500'']]\<rparr>]"
    if parsed: "ParseForm_error r = None"
      and ok: "NewRequest_error up (digimonAPIBaseURL @ ''/digimon'') = None"
    using a [OF parsed] q GetAllDigimons_sent [OF ok, of createContext "Some ?opts" sent]
    by (simp add: withOptions_def request_of_def)
  have c: "\<exists>m. DisplayFilterAdvanced up r sent =
        (Inr (helper_RenderTemplate ''filter_digimons_advanced'' (MapData m)), sent') \<and>
      m ''Digimons'' = Some (SummariesV (if ?none then Content d else [])) \<and>
      m ''Total'' = Some (IntV (if ?none then int (length (Content d)) else 0))"
    if parsed: "ParseForm_error r = None"
      and fetched: "GetAllDigimons up createContext (Some ?opts) sent =
        ((Some d, StatusOK, None), sent')"
  proof -
    let ?valid = "if ?none then Content d else []"
    let ?m = "[''Digimons'' \<mapsto> SummariesV ?valid,
        ''Levels'' \<mapsto> StringsV (index_Values (Form r) ''levels''),
        ''Attributes'' \<mapsto> StringsV (index_Values (Form r) ''attributes''),
        ''XAntibody'' \<mapsto>
          BoolV (FormValue r ''xantibody'' = ''true'' \<or> FormValue r ''xantibody'' = ''on''),
        ''Total'' \<mapsto> IntV (int (length ?valid))]"
    have loop: "validDigimons_loop (index_Values (Form r) ''levels'')
        (index_Values (Form r) ''attributes'') (FormValue r ''xantibody'') (Content d) [] = ?valid"
      by (simp add: validDigimons_loop_eq)
    have reply: "DisplayFilterAdvanced up r sent =
        (Inr (helper_RenderTemplate ''filter_digimons_advanced'' (MapData ?m)), sent')"
      using parsed fetched
      by (simp add: DisplayFilterAdvanced_def opts Let_def loop del: validDigimons_loop.simps)
    have digimons: "?m ''Digimons'' = Some (SummariesV ?valid)"
      by simp
    have total: "?m ''Total'' = Some (IntV (if ?none then int (length (Content d)) else 0))"
      by simp
    from reply digimons total show ?thesis
      by (intro exI [of _ ?m] conjI)
  qed
  from refused a b c show ?thesis
    by (intro conjI impI)
qed

theorem DisplayFilterAdvanced_filter_witness:
  "(\<exists>m. DisplayFilterAdvanced (example_upstream answer_200)
           (example_incoming Map.empty Map.empty) [] =
           (Inr (helper_RenderTemplate ''filter_digimons_advanced'' (MapData m)),
            [\<lparr>Ctx = createContext, Method = ''GET'', URL = digimonAPIBaseURL @ ''/digimon'',
              Query = [''pageSize'' \<mapsto> [''500'']]\<rparr>]) \<and>
         m ''Digimons'' = Some (SummariesV [example_summary]) \<and>
         m ''Total'' = Some (IntV 1)) \<and>
   (\<exists>m. DisplayFilterAdvanced (example_upstream answer_200)
           (example_incoming Map.empty [''levels'' \<mapsto> [''Rookie'']]) [] =
           (Inr (helper_RenderTemplate ''filter_digimons_advanced'' (MapData m)),
            [\<lparr>Ctx = createContext, Method = ''GET'', URL = digimonAPIBaseURL @ ''/digimon'',
              Query = [''pageSize'' \<mapsto> [''500'']]\<rparr>]) \<and>
         m ''Digimons'' = Some (SummariesV []) \<and>
         m ''Total'' = Some (IntV 0)) \<and>
   DisplayFilterAdvanced (example_upstream answer_200)
     \<lparr>URL_Query = Map.empty, ParseForm_error = Some ''invalid semicolon separator in query'',
      Form = Map.empty\<rparr> [] =
     (Inr (http_Error ''Erreur parsing formulaire'' 400), [])"
proof -
  let ?opts = "\<lparr>Name = [], Exact = False, Attribute = [], XAntibody = None, Level = [],
      Page = 0, PageSize = 500\<rparr>"
  let ?req = "\<lparr>Ctx = createContext, Method = ''GET'', URL = digimonAPIBaseURL @ ''/digimon'',
      Query = [''pageSize'' \<mapsto> [''500'']]\<rparr>"
  let ?bad = "\<lparr>URL_Query = Map.empty,
      ParseForm_error = Some ''invalid semicolon separator in query'', Form = Map.empty\<rparr>"
  have "addOptions ?opts Map.empty = [''pageSize'' \<mapsto> [''500'']]"
    by (simp add: addOptions_page Sprintf_d_examples)
  then have fetched: "GetAllDigimons (example_upstream answer_200) createContext (Some ?opts) [] =
      ((Some example_page, StatusOK, None), [?req])"
    by (simp add: example_list_200 withOptions_def request_of_def)
  have parsed: "ParseForm_error (example_incoming q f) = None" for q f
    by (simp add: example_incoming_def)
  have unparsed: "ParseForm_error ?bad \<noteq> None"
    by simp
  have form:
    "index_Values (Form (example_incoming Map.empty Map.empty)) ''levels'' = []"
    "index_Values (Form (example_incoming Map.empty Map.empty)) ''attributes'' = []"
    "FormValue (example_incoming Map.empty Map.empty) ''xantibody'' = []"
    "index_Values (Form (example_incoming Map.empty [''levels'' \<mapsto> [''Rookie'']])) ''levels'' =
       [''Rookie'']"
    by (simp_all add: example_incoming_def FormValue_def index_Values_def)
  have content: "Content example_page = [example_summary]"
    by (simp add: example_page_def)
  note none = DisplayFilterAdvanced_filter
    [where r = "example_incoming Map.empty Map.empty" and up = "example_upstream answer_200"
       and sent = "[]" and d = example_page and sent' = "[?req]",
     THEN conjunct2, THEN conjunct2, THEN conjunct2, rule_format, OF parsed fetched]
  note some = DisplayFilterAdvanced_filter
    [where r = "example_incoming Map.empty [''levels'' \<mapsto> [''Rookie'']]"
       and up = "example_upstream answer_200"
       and sent = "[]" and d = example_page and sent' = "[?req]",
     THEN conjunct2, THEN conjunct2, THEN conjunct2, rule_format, OF parsed fetched]
  note bad = DisplayFilterAdvanced_filter
    [where r = ?bad and up = "example_upstream answer_200" and sent = "[]",
     THEN conjunct1, rule_format, OF unparsed]
  from none some bad show ?thesis
    by (simp add: form content)
qed

subsection \<open>Lookup by id\<close>

text \<open>
  C4, as the code has it. The handler does not ask for a positive id: it checks that the
  \<open>id\<close> parameter is there and that \<open>strconv.Atoi\<close> reads it, and nothing about its sign.
  For the id \<open>-5\<close> it fetches \<open>/digimon/-5\<close>.
\<close>

theorem DisplayDigimonDetails_negative_id:
  "Atoi ''-5'' = Inr (- 5) \<and>
   snd (DisplayDigimonDetails (example_upstream answer_404)
          (example_incoming [''id'' \<mapsto> [''-5'']] Map.empty) []) =
     [\<lparr>Ctx = createContext, Method = ''GET'', URL = ''https://digi-api.com/api/v1/digimon/-5'',
       Query = Map.empty\<rparr>]"
proof -
  have atoi: "Atoi ''-5'' = Inr (- 5)"
    by (simp add: Atoi_def isDigit_def)
  have sprintf: "Sprintf_d (- 5) = ''-5''"
    by (simp add: Sprintf_d_def natToDec.simps digitChar_def)
  have "snd (DisplayDigimonDetails (example_upstream answer_404)
          (example_incoming [''id'' \<mapsto> [''-5'']] Map.empty) []) =
     [\<lparr>Ctx = createContext, Method = ''GET'', URL = ''https://digi-api.com/api/v1/digimon/-5'',
       Query = Map.empty\<rparr>]"
    by (simp add: DisplayDigimonDetails_def example_incoming_def Get_def index_Values_def atoi
        GetDigimonByID_def fetchDigimon_def NewRequestWithContext_def Do_def
        example_upstream_def answer_404_def digimonAPIBaseURL_def sprintf)
  with atoi show ?thesis
    by (intro conjI)
qed

text \<open>
  C4, amended. The \<open>id\<close> parameter must be an integer that \<open>strconv.Atoi\<close> reads: when it is
  missing the handler answers 400 ("ID manquant"), when it is not a numeral, or does not fit
  an \<open>int\<close>, the handler answers 400 ("ID invalide"), in both cases with no upstream call;
  every other id, whatever its sign, proceeds to the upstream fetch of \<open>/digimon/<id>\<close>.
\<close>

theorem DisplayDigimonDetails_id:
  "(Get (URL_Query r) ''id'' = [] \<longrightarrow>
      DisplayDigimonDetails up r sent = (Inr (http_Error ''ID manquant'' 400), sent)) \<and>
   (Get (URL_Query r) ''id'' \<noteq> [] \<longrightarrow> \<not> numeral_text (Get (URL_Query r) ''id'') \<longrightarrow>
      DisplayDigimonDetails up r sent = (Inr (http_Error ''ID invalide'' 400), sent)) \<and>
   (Get (URL_Query r) ''id'' \<noteq> [] \<longrightarrow> Atoi (Get (URL_Query r) ''id'') = Inl e \<longrightarrow>
      DisplayDigimonDetails up r sent = (Inr (http_Error ''ID invalide'' 400), sent)) \<and>
   (Atoi (Get (URL_Query r) ''id'') = Inr ident \<longrightarrow>
      snd (DisplayDigimonDetails up r sent) = snd (GetDigimonByID up createContext ident sent)) \<and>
   (Atoi (Get (URL_Query r) ''id'') = Inr ident \<longrightarrow>
    NewRequest_error up (digimonAPIBaseURL @ ''/digimon/'' @ Sprintf_d ident) = None \<longrightarrow>
      snd (DisplayDigimonDetails up r sent) =
        sent @ [\<lparr>Ctx = createContext, Method = ''GET'',
                 URL = digimonAPIBaseURL @ ''/digimon/'' @ Sprintf_d ident,
                 Query = Map.empty\<rparr>])"
proof (intro conjI impI)
  assume "Get (URL_Query r) ''id'' = []"
  then show "DisplayDigimonDetails up r sent = (Inr (http_Error ''ID manquant'' 400), sent)"
    by (simp add: DisplayDigimonDetails_def call_http_Error_def)
next
  assume there: "Get (URL_Query r) ''id'' \<noteq> []"
    and "\<not> numeral_text (Get (URL_Query r) ''id'')"
  then obtain err where "Atoi (Get (URL_Query r) ''id'') = Inl err"
    using Atoi_not_numeral [of "Get (URL_Query r) ''id''"] by (auto simp: isl_def)
  with there show "DisplayDigimonDetails up r sent =
      (Inr (http_Error ''ID invalide'' 400), sent)"
    by (simp add: DisplayDigimonDetails_def call_http_Error_def)
next
  assume "Get (URL_Query r) ''id'' \<noteq> []" and "Atoi (Get (URL_Query r) ''id'') = Inl e"
  then show "DisplayDigimonDetails up r sent = (Inr (http_Error ''ID invalide'' 400), sent)"
    by (simp add: DisplayDigimonDetails_def call_http_Error_def)
next
  assume "Atoi (Get (URL_Query r) ''id'') = Inr ident"
  then show "snd (DisplayDigimonDetails up r sent) =
      snd (GetDigimonByID up createContext ident sent)"
    by (rule DisplayDigimonDetails_sent)
next
  assume ident: "Atoi (Get (URL_Query r) ''id'') = Inr ident"
    and ok: "NewRequest_error up (digimonAPIBaseURL @ ''/digimon/'' @ Sprintf_d ident) = None"
  show "snd (DisplayDigimonDetails up r sent) =
      sent @ [\<lparr>Ctx = createContext, Method = ''GET'',
               URL = digimonAPIBaseURL @ ''/digimon/'' @ Sprintf_d ident, Query = Map.empty\<rparr>]"
    using DisplayDigimonDetails_sent [OF ident, of up sent]
      fetchDigimon_sent [OF ok, of createContext sent]
    by (simp add: GetDigimonByID_def request_of_def)
qed

theorem DisplayDigimonDetails_id_witness:
  "DisplayDigimonDetails (example_upstream answer_200) (example_incoming Map.empty Map.empty) [] =
     (Inr (http_Error ''ID manquant'' 400), []) \<and>
   DisplayDigimonDetails (example_upstream answer_200)
     (example_incoming [''id'' \<mapsto> [''abc'']] Map.empty) [] =
     (Inr (http_Error ''ID invalide'' 400), []) \<and>
   DisplayDigimonDetails (example_upstream answer_200)
     (example_incoming [''id'' \<mapsto> [''99999999999999999999'']] Map.empty) [] =
     (Inr (http_Error ''ID invalide'' 400), []) \<and>
   snd (DisplayDigimonDetails (example_upstream answer_200)
     (example_incoming [''id'' \<mapsto> [''7'']] Map.empty) []) =
     [\<lparr>Ctx = createContext, Method = ''GET'', URL = ''https://digi-api.com/api/v1/digimon/7'',
       Query = Map.empty\<rparr>] \<and>
   snd (DisplayDigimonDetails (example_upstream answer_200)
     (example_incoming [''id'' \<mapsto> [''0'']] Map.empty) []) =
     [\<lparr>Ctx = createContext, Method = ''GET'', URL = ''https://digi-api.com/api/v1/digimon/0'',
       Query = Map.empty\<rparr>]"
proof -
  have ids:
    "Get (URL_Query (example_incoming Map.empty Map.empty)) ''id'' = []"
    "Get (URL_Query (example_incoming [''id'' \<mapsto> [v]] Map.empty)) ''id'' = v" for v
    by (simp_all add: example_incoming_def Get_def index_Values_def)
  have abc: "\<not> numeral_text ''abc''"
    by (simp add: numeral_text_def isDigit_def)
  have big: "Atoi ''99999999999999999999'' = Inl ErrRange"
    by (simp add: Atoi_def isDigit_def)
  have seven: "Atoi ''7'' = Inr 7" and zero: "Atoi ''0'' = Inr 0"
    by (simp_all add: Atoi_def isDigit_def)
  have decimal: "Sprintf_d 7 = ''7''" "Sprintf_d 0 = ''0''"
    by (simp_all add: Sprintf_d_def natToDec.simps digitChar_def)
  have ok: "NewRequest_error (example_upstream answer_200) url = None" for url
    by (simp add: example_upstream_def)
  show ?thesis
    using
      DisplayDigimonDetails_id [of "example_incoming Map.empty Map.empty"
        "example_upstream answer_200" "[]" ErrSyntax 0]
      DisplayDigimonDetails_id [of "example_incoming [''id'' \<mapsto> [''abc'']] Map.empty"
        "example_upstream answer_200" "[]" ErrSyntax 0]
      DisplayDigimonDetails_id
        [of "example_incoming [''id'' \<mapsto> [''99999999999999999999'']] Map.empty"
          "example_upstream answer_200" "[]" ErrRange 0]
      DisplayDigimonDetails_id [of "example_incoming [''id'' \<mapsto> [''7'']] Map.empty"
        "example_upstream answer_200" "[]" ErrSyntax 7, THEN conjunct2, THEN conjunct2,
        THEN conjunct2, THEN conjunct2]
      DisplayDigimonDetails_id [of "example_incoming [''id'' \<mapsto> [''0'']] Map.empty"
        "example_upstream answer_200" "[]" ErrSyntax 0, THEN conjunct2, THEN conjunct2,
        THEN conjunct2, THEN conjunct2]
    by (simp add: ids abc big seven zero decimal ok digimonAPIBaseURL_def)
qed

end
